theory Spec2Isabelle
  imports Complex_Main
begin

section \<open>Numbers of the source\<close>

text \<open>
  The source is TypeScript: every \<open>number\<close> is modelled as a \<open>real\<close>, so the
  arithmetic below is exact. The values NaN and the infinities have no counterpart;
  where the source guards against a falsy number (\<open>x || d\<close>) the guard is kept for the
  value \<open>0\<close>, and a missing optional value is \<open>None\<close>. Division by zero and a
  zero base raised to a negative power give \<open>0\<close> here and an infinity or NaN in the
  source; a negative base raised to a fractional power gives NaN in the source. The
  model agrees with the source wherever the source computes finite numbers without
  rounding error.
\<close>

definition Math_round :: "real \<Rightarrow> real" where
  \<comment> \<open>\<open>Math.round\<close>: the nearest integer, a tie going up.\<close>
  "Math_round x = of_int \<lfloor>x + 1 / 2\<rfloor>"

definition Math_pow :: "real \<Rightarrow> real \<Rightarrow> real" where
  \<comment> \<open>\<open>Math.pow\<close>: an integral exponent is computed by repeated multiplication
      (and reciprocal), any other exponent through the real power.\<close>
  "Math_pow x y = (if y = of_int \<lfloor>y\<rfloor> then x powi \<lfloor>y\<rfloor> else x powr y)"

definition toFixed1 :: "real \<Rightarrow> real" where
  \<comment> \<open>\<open>parseFloat(x.toFixed(1))\<close>: \<open>toFixed\<close> sets the sign aside, then takes the
      integer \<open>n\<close> with \<open>n / 10\<close> nearest to the magnitude, the larger one on a tie.\<close>
  "toFixed1 x = (if x < 0 then - (of_int \<lfloor>(- x) * 10 + 1 / 2\<rfloor> / 10)
                 else of_int \<lfloor>x * 10 + 1 / 2\<rfloor> / 10)"

section \<open>Data model (src/types.ts)\<close>

datatype AssetType = Stock | Bond | Cash | Crypto | RealEstate | Commodity

datatype Region = US | Global | Asia | Europe | Emerging

text \<open>
  A currency is kept as its code, a string, since \<open>convertToHKD\<close> and
  \<open>calculatePortfolioStats\<close> both provide for a code that is missing or unknown.
  The empty string stands for a missing code.
\<close>

type_synonym Currency = string

record Asset =
  asset_id :: string
  name :: string
  symbol :: "string option"
  asset_type :: AssetType
  region :: Region
  currency :: Currency
  allocation :: real
  quantity :: real
  expectedReturn :: real
  dividendYield :: real
  volatility :: real
  currentPrice :: real
  weeklyChange :: real

text \<open>
  Assets are objects: an array of assets holds references, and
  \<open>calculatePortfolioStats\<close> writes into the objects it is given. The store maps a
  reference to the object it denotes; two arrays may hold the same reference.
\<close>

type_synonym ref = nat

type_synonym store = "ref \<Rightarrow> Asset"

record MortgageParams =
  hasMortgage :: bool
  remainingPrincipal :: real
  annualRate :: real
  remainingYears :: real
  monthlyPayment :: real
  reinvestAfterPayoff :: bool

record CalculationParams =
  currentAge :: real
  retirementAge :: real
  monthlyIncome :: real
  targetMonthlyIncome :: real
  targetAnnualYield :: real
  initialPrincipal :: real
  monthlyContribution :: real
  annualExtraContribution :: real
  inflationRate :: real
  mortgage :: MortgageParams
  useManualReturn :: bool
  manualReturnRate :: real
  manualDividendYield :: real
  assets :: "ref list"
  simulatedAssets :: "ref list"
  lastPortfolioUpdate :: "real option"

record YearlyResult =
  age :: real
  year :: int
  totalPrincipal :: real
  totalAppreciation :: real
  totalDividends :: real
  totalBalance :: real
  totalLiabilities :: real
  netWorth :: real
  yearlyPassiveIncome :: real
  totalPrincipalReal :: real
  totalAppreciationReal :: real
  totalDividendsReal :: real
  totalBalanceReal :: real
  totalLiabilitiesReal :: real
  netWorthReal :: real
  yearlyPassiveIncomeReal :: real

record PortfolioStats =
  weightedReturn :: real
  weightedYield :: real
  weightedVolatility :: real
  totalValue :: real

datatype SimulationEventType =
    CONTRIBUTION_STOP
  | ONE_TIME_EXPENSE
  | RECURRING_EXPENSE
  | MARKET_CRASH
  | RETURN_REDUCTION
  | RETIREMENT_EARLY

record LifecycleEvent =
  startAge :: real
  duration :: "real option"
  ev_type :: SimulationEventType
  ev_value :: real
  ev_name :: "string option"

section \<open>Currency conversion and portfolio statistics (src/utils/calculations.ts)\<close>

definition EXCHANGE_RATES :: "Currency \<Rightarrow> real option" where
  "EXCHANGE_RATES c =
     (if c = ''HKD'' then Some 1
      else if c = ''USD'' then Some (780 / 100)
      else if c = ''CNY'' then Some (108 / 100)
      else if c = ''JPY'' then Some (52 / 1000)
      else if c = ''GBP'' then Some (985 / 100)
      else if c = ''EUR'' then Some (845 / 100)
      else None)"

definition convertToHKD :: "real \<Rightarrow> Currency \<Rightarrow> real" where
  \<comment> \<open>\<open>EXCHANGE_RATES[currency] || 1\<close>: an unknown code, or a rate of zero, gives 1.\<close>
  "convertToHKD amount c =
     (let rate = (case EXCHANGE_RATES c of None \<Rightarrow> 1 | Some r \<Rightarrow> if r = 0 then 1 else r)
      in amount * rate)"

definition calculatePMT :: "real \<Rightarrow> real \<Rightarrow> real \<Rightarrow> real" where
  "calculatePMT rate nper pv =
     (if rate = 0 then pv / nper
      else let monthlyRate = rate / 100 / 12
           in (pv * monthlyRate) / (1 - Math_pow (1 + monthlyRate) (- nper)))"

definition hkdValueOf :: "Asset \<Rightarrow> real" where
  \<comment> \<open>The two lines both passes start with: \<open>asset.quantity || 0\<close> is the quantity
      itself on the reals, \<open>asset.currency || 'HKD'\<close> replaces a missing code.\<close>
  "hkdValueOf asset =
     (let localValue = currentPrice asset * quantity asset
      in convertToHKD localValue (if currency asset = [] then ''HKD'' else currency asset))"

definition firstPass :: "store \<Rightarrow> ref list \<Rightarrow> real" where
  "firstPass h rs = foldl (\<lambda>totalValueHKD r. totalValueHKD + hkdValueOf (h r)) 0 rs"

definition secondPassStep :: "real \<Rightarrow> real \<times> real \<times> real \<times> store \<Rightarrow> ref \<Rightarrow> real \<times> real \<times> real \<times> store" where
  "secondPassStep totalValueHKD acc r =
     (case acc of (wReturn, wYield, wVolatility, h) \<Rightarrow>
        let asset = h r;
            weight = hkdValueOf asset / totalValueHKD
        in (wReturn + expectedReturn asset * weight,
            wYield + dividendYield asset * weight,
            wVolatility + volatility asset * weight,
            h(r := asset\<lparr>allocation := toFixed1 (weight * 100)\<rparr>)))"

definition calculatePortfolioStats :: "store \<Rightarrow> ref list \<Rightarrow> PortfolioStats \<times> store" where
  "calculatePortfolioStats h rs =
     (let totalValueHKD = firstPass h rs
      in if totalValueHKD = 0
         then (\<lparr>weightedReturn = 0, weightedYield = 0, weightedVolatility = 0, totalValue = 0\<rparr>, h)
         else (case foldl (secondPassStep totalValueHKD) (0, 0, 0, h) rs of
                 (wReturn, wYield, wVolatility, h') \<Rightarrow>
                   (\<lparr>weightedReturn = wReturn, weightedYield = wYield,
                     weightedVolatility = wVolatility, totalValue = totalValueHKD\<rparr>, h')))"

definition calculateRequiredCapital :: "real \<Rightarrow> real \<Rightarrow> real" where
  "calculateRequiredCapital targetIncome annualYield =
     (if annualYield \<le> 0 then 0 else (targetIncome * 12) / (annualYield / 100))"

section \<open>The projection simulator\<close>

text \<open>
  \<open>calculateCompoundInterest\<close> keeps six running variables, updated by its yearly and
  monthly loops; \<open>SimState\<close> holds them. The values it fixes before the loops and only
  reads afterwards are gathered in \<open>Env\<close>. The calendar year, which the source reads
  from the clock, is an argument. The event list and the life expectancy are always
  passed (the source defaults them to the empty list and to 85), and the inflation
  rate is a number (the source defaults a missing one to 0).
\<close>

record SimState =
  currentBalance :: real
  totalContributed :: real
  st_totalAppreciation :: real
  st_totalDividends :: real
  mortgageBalance :: real
  monthsRemainingOnMortgage :: real

record Env =
  env_params :: CalculationParams
  env_events :: "LifecycleEvent list"
  effectiveRetirementAge :: real
  annualPriceAppreciation :: real
  annualDividendYield :: real
  mortgageMonthlyPayment :: real
  currentYear :: int

definition resolveRetirementAge :: "CalculationParams \<Rightarrow> LifecycleEvent list \<Rightarrow> real" where
  "resolveRetirementAge p evs =
     (case find (\<lambda>e. ev_type e = RETIREMENT_EARLY) evs of
        Some earlyRetireEvent \<Rightarrow> retirementAge p - ev_value earlyRetireEvent
      | None \<Rightarrow> retirementAge p)"

definition isActive :: "real \<Rightarrow> LifecycleEvent \<Rightarrow> bool" where
  \<comment> \<open>\<open>e.duration || 1\<close>: a missing duration, and a duration of zero, count as 1.\<close>
  "isActive a e =
     (a \<ge> startAge e \<and>
      a < startAge e + (case duration e of None \<Rightarrow> 1 | Some d \<Rightarrow> if d = 0 then 1 else d))"

definition applyCrashes :: "LifecycleEvent list \<Rightarrow> SimState \<Rightarrow> SimState" where
  "applyCrashes yearEvents st =
     foldl (\<lambda>s e. s\<lparr>currentBalance := currentBalance s * (1 - ev_value e / 100)\<rparr>) st
       (filter (\<lambda>e. ev_type e = MARKET_CRASH) yearEvents)"

definition reducedRates :: "LifecycleEvent list \<Rightarrow> real \<times> real \<Rightarrow> real \<times> real" where
  "reducedRates yearEvents rates =
     foldl (\<lambda>(effectiveAppreciation, effectiveYield) e.
              (effectiveAppreciation * (1 - ev_value e / 100),
               effectiveYield * (1 - ev_value e / 100))) rates
       (filter (\<lambda>e. ev_type e = RETURN_REDUCTION) yearEvents)"

definition applyExpenses :: "LifecycleEvent list \<Rightarrow> SimState \<Rightarrow> SimState" where
  "applyExpenses yearEvents st =
     foldl (\<lambda>s e. s\<lparr>currentBalance := currentBalance s - ev_value e\<rparr>) st
       (filter (\<lambda>e. ev_type e = ONE_TIME_EXPENSE \<or> ev_type e = RECURRING_EXPENSE) yearEvents)"

definition effectiveMonthlyContrib :: "CalculationParams \<Rightarrow> bool \<Rightarrow> LifecycleEvent list \<Rightarrow> real" where
  "effectiveMonthlyContrib p isRetired yearEvents =
     (let contrib = (if isRetired then 0 else monthlyContribution p);
          contribStopEvents = filter (\<lambda>e. ev_type e = CONTRIBUTION_STOP) yearEvents
      in if length contribStopEvents > 0 then 0 else contrib)"

definition effectiveAnnualContrib :: "CalculationParams \<Rightarrow> bool \<Rightarrow> LifecycleEvent list \<Rightarrow> real" where
  "effectiveAnnualContrib p isRetired yearEvents =
     (let contrib = (if isRetired then 0 else annualExtraContribution p);
          contribStopEvents = filter (\<lambda>e. ev_type e = CONTRIBUTION_STOP) yearEvents
      in if length contribStopEvents > 0 then 0 else contrib)"

definition monthStep :: "Env \<Rightarrow> real \<Rightarrow> real \<Rightarrow> real \<Rightarrow> SimState \<Rightarrow> SimState" where
  "monthStep env monthlyAppreciationRate monthlyDividendRate monthlyContrib st =
     (let m = mortgage (env_params env);
          monthlyMortgageRate = (annualRate m / 100) / 12;
          (extraInvestFromMortgage, st1) =
            (if monthsRemainingOnMortgage st > 0
             then let interestPayment = mortgageBalance st * monthlyMortgageRate;
                      principalPayment = mortgageMonthlyPayment env - interestPayment
                  in (0, st\<lparr>mortgageBalance :=
                               (if mortgageBalance st > principalPayment
                                then mortgageBalance st - principalPayment else 0),
                             monthsRemainingOnMortgage := monthsRemainingOnMortgage st - 1\<rparr>)
             else (if hasMortgage m \<and> reinvestAfterPayoff m
                   then mortgageMonthlyPayment env else 0, st));
          totalMonthlyInput = monthlyContrib + extraInvestFromMortgage;
          balance1 = currentBalance st1 + totalMonthlyInput;
          appreciationAmount = balance1 * monthlyAppreciationRate;
          dividendAmount = balance1 * monthlyDividendRate
      in st1\<lparr>currentBalance := balance1 + (appreciationAmount + dividendAmount),
             totalContributed := totalContributed st1 + totalMonthlyInput,
             st_totalAppreciation := st_totalAppreciation st1 + appreciationAmount,
             st_totalDividends := st_totalDividends st1 + dividendAmount\<rparr>)"

function monthLoop :: "(SimState \<Rightarrow> SimState) \<Rightarrow> nat \<Rightarrow> SimState \<Rightarrow> SimState" where
  "monthLoop body month st =
     (if month \<le> 12 then monthLoop body (Suc month) (body st) else st)"
  by pat_completeness auto
termination
  by (relation "measure (\<lambda>(body, month, st). 13 - month)") auto

declare monthLoop.simps [simp del]

definition emitResult :: "Env \<Rightarrow> nat \<Rightarrow> real \<Rightarrow> SimState \<Rightarrow> YearlyResult" where
  "emitResult env yr effectiveYield st =
     (let p = env_params env;
          discountFactor = Math_pow (1 + inflationRate p / 100) (- real yr)
      in \<lparr>age = currentAge p + real yr,
          year = currentYear env + int yr,
          totalPrincipal = Math_round (totalContributed st),
          totalAppreciation = Math_round (st_totalAppreciation st),
          totalDividends = Math_round (st_totalDividends st),
          totalBalance = Math_round (currentBalance st),
          totalLiabilities = Math_round (mortgageBalance st),
          netWorth = Math_round (currentBalance st - mortgageBalance st),
          yearlyPassiveIncome = Math_round (currentBalance st * (effectiveYield / 100)),
          totalPrincipalReal = Math_round (totalContributed st * discountFactor),
          totalAppreciationReal = Math_round (st_totalAppreciation st * discountFactor),
          totalDividendsReal = Math_round (st_totalDividends st * discountFactor),
          totalBalanceReal = Math_round (currentBalance st * discountFactor),
          totalLiabilitiesReal = Math_round (mortgageBalance st * discountFactor),
          netWorthReal = Math_round ((currentBalance st - mortgageBalance st) * discountFactor),
          yearlyPassiveIncomeReal =
            Math_round ((currentBalance st * (effectiveYield / 100)) * discountFactor)\<rparr>)"

definition restOfYear :: "Env \<Rightarrow> nat \<Rightarrow> real \<Rightarrow> real \<Rightarrow> real \<Rightarrow> real \<Rightarrow> SimState \<Rightarrow> SimState \<times> YearlyResult" where
  \<comment> \<open>The monthly loop, the year end and the emitted record, from the balance, the
      rates and the contributions that the events of the year have left.\<close>
  "restOfYear env yr effectiveAppreciation effectiveYield monthlyContrib annualContrib st =
     (let monthlyAppreciationRate = effectiveAppreciation / 100 / 12;
          monthlyDividendRate = effectiveYield / 100 / 12;
          st1 = monthLoop (monthStep env monthlyAppreciationRate monthlyDividendRate monthlyContrib) 1 st;
          st2 = st1\<lparr>currentBalance := currentBalance st1 + annualContrib,
                    totalContributed := totalContributed st1 + annualContrib\<rparr>
      in (st2, emitResult env yr effectiveYield st2))"

definition yearStep :: "Env \<Rightarrow> nat \<Rightarrow> SimState \<Rightarrow> SimState \<times> YearlyResult" where
  "yearStep env yr st =
     (let p = env_params env;
          a = currentAge p + real yr;
          isRetired = (a \<ge> effectiveRetirementAge env);
          yearEvents = filter (isActive a) (env_events env);
          st1 = applyCrashes yearEvents st;
          (effectiveAppreciation, effectiveYield) =
            reducedRates yearEvents (annualPriceAppreciation env, annualDividendYield env);
          st2 = applyExpenses yearEvents st1
      in restOfYear env yr effectiveAppreciation effectiveYield
           (effectiveMonthlyContrib p isRetired yearEvents)
           (effectiveAnnualContrib p isRetired yearEvents) st2)"

function yearLoop :: "Env \<Rightarrow> real \<Rightarrow> nat \<Rightarrow> SimState \<Rightarrow> YearlyResult list" where
  "yearLoop env yearsToSimulate yr st =
     (if real yr \<le> yearsToSimulate
      then (case yearStep env yr st of (st', r) \<Rightarrow> r # yearLoop env yearsToSimulate (Suc yr) st')
      else [])"
  by pat_completeness auto
termination
proof (relation "measure (\<lambda>(env, yearsToSimulate, yr, st). nat (\<lfloor>yearsToSimulate\<rfloor> + 1) - yr)",
       goal_cases)
  case 1
  show ?case by simp
next
  case (2 env yearsToSimulate yr st x y)
  from 2(1) have "int yr \<le> \<lfloor>yearsToSimulate\<rfloor>"
    by (simp add: le_floor_iff)
  then show ?case by simp
qed

declare yearLoop.simps [simp del]

definition initialPayment :: "MortgageParams \<Rightarrow> real" where
  "initialPayment m =
     (if hasMortgage m \<and> remainingPrincipal m > 0 \<and> remainingYears m > 0
      then (if monthlyPayment m > 0 then monthlyPayment m
            else calculatePMT (annualRate m) (remainingYears m * 12) (remainingPrincipal m))
      else 0)"

definition initialEnv :: "CalculationParams \<Rightarrow> LifecycleEvent list \<Rightarrow> PortfolioStats \<Rightarrow> int \<Rightarrow> Env" where
  "initialEnv p evs stats thisYear =
     \<lparr>env_params = p,
      env_events = evs,
      effectiveRetirementAge = resolveRetirementAge p evs,
      annualPriceAppreciation = (if useManualReturn p then manualReturnRate p else weightedReturn stats),
      annualDividendYield = (if useManualReturn p then manualDividendYield p else weightedYield stats),
      mortgageMonthlyPayment = initialPayment (mortgage p),
      currentYear = thisYear\<rparr>"

definition initialState :: "CalculationParams \<Rightarrow> SimState" where
  "initialState p =
     \<lparr>currentBalance = initialPrincipal p,
      totalContributed = initialPrincipal p,
      st_totalAppreciation = 0,
      st_totalDividends = 0,
      mortgageBalance = (if hasMortgage (mortgage p) then remainingPrincipal (mortgage p) else 0),
      monthsRemainingOnMortgage =
        (if hasMortgage (mortgage p) then remainingYears (mortgage p) * 12 else 0)\<rparr>"

definition firstResult :: "Env \<Rightarrow> SimState \<Rightarrow> YearlyResult" where
  "firstResult env st =
     (let p = env_params env
      in \<lparr>age = currentAge p,
          year = currentYear env,
          totalPrincipal = totalContributed st,
          totalAppreciation = 0,
          totalDividends = 0,
          totalBalance = currentBalance st,
          totalLiabilities = mortgageBalance st,
          netWorth = currentBalance st - mortgageBalance st,
          yearlyPassiveIncome = initialPrincipal p * (annualDividendYield env / 100),
          totalPrincipalReal = totalContributed st,
          totalAppreciationReal = 0,
          totalDividendsReal = 0,
          totalBalanceReal = currentBalance st,
          totalLiabilitiesReal = mortgageBalance st,
          netWorthReal = currentBalance st - mortgageBalance st,
          yearlyPassiveIncomeReal = initialPrincipal p * (annualDividendYield env / 100)\<rparr>)"

definition calculateCompoundInterest ::
  "store \<Rightarrow> CalculationParams \<Rightarrow> LifecycleEvent list \<Rightarrow> real \<Rightarrow> int \<Rightarrow> YearlyResult list \<times> store" where
  "calculateCompoundInterest h p evs lifeExpectancy thisYear =
     (case calculatePortfolioStats h (assets p) of (stats, h') \<Rightarrow>
        let env = initialEnv p evs stats thisYear;
            yearsToSimulate = lifeExpectancy - currentAge p
        in if yearsToSimulate \<le> 0 then ([], h')
           else let st0 = initialState p
                in (firstResult env st0 # yearLoop env yearsToSimulate 1 st0, h'))"

section \<open>Monte Carlo simulation\<close>

text \<open>
  \<open>randn_bm\<close> draws from \<open>Math.random\<close>; the model takes the sequence of its results
  as an argument, the \<open>k\<close>-th call returning \<open>randn k\<close>, and counts the calls. The
  number of simulations is a natural number. A percentile read past the end of an
  array is \<open>undefined\<close>, which \<open>Math.round\<close> turns into NaN: this is \<open>None\<close>.
  \<open>resultsByYear[0].push\<close> on an array without element 0 throws.
\<close>

record SimulationResult =
  sim_year :: int
  sim_age :: real
  p10 :: "real option"
  p50 :: "real option"
  p90 :: "real option"

datatype error = TypeError

function trialFrom ::
  "(nat \<Rightarrow> real) \<Rightarrow> real \<Rightarrow> real \<Rightarrow> real \<Rightarrow> real \<Rightarrow> nat \<Rightarrow> real \<Rightarrow> nat \<Rightarrow> real list \<times> nat" where
  "trialFrom randn mean stdDev annualContrib years y balance k =
     (if real y \<le> years
      then let randomReturn = mean + (stdDev * randn k);
               balance1 = balance * (1 + randomReturn) + annualContrib;
               balance2 = (if balance1 < 0 then 0 else balance1)
           in (case trialFrom randn mean stdDev annualContrib years (Suc y) balance2 (Suc k) of
                 (rest, k') \<Rightarrow> (balance2 # rest, k'))
      else ([], k))"
  by pat_completeness auto
termination
proof (relation "measure (\<lambda>(randn, mean, stdDev, annualContrib, years, y, balance, k).
                            nat (\<lfloor>years\<rfloor> + 1) - y)", goal_cases)
  case 1
  show ?case by simp
next
  case (2 randn mean stdDev annualContrib years y balance k x xa xb)
  from 2(1) have "int y \<le> \<lfloor>years\<rfloor>"
    by (simp add: le_floor_iff)
  then show ?case by simp
qed

declare trialFrom.simps [simp del]

fun trials ::
  "(nat \<Rightarrow> real) \<Rightarrow> real \<Rightarrow> real \<Rightarrow> real \<Rightarrow> real \<Rightarrow> real \<Rightarrow> nat \<Rightarrow> nat \<Rightarrow> real list list" where
  "trials randn mean stdDev annualContrib years start 0 k = []"
| "trials randn mean stdDev annualContrib years start (Suc n) k =
     (case trialFrom randn mean stdDev annualContrib years 1 start k of
        (rest, k') \<Rightarrow>
          (start # rest) # trials randn mean stdDev annualContrib years start n k')"

definition percentile :: "real list \<Rightarrow> nat \<Rightarrow> real \<Rightarrow> real option" where
  "percentile balances simulations q =
     (let i = nat \<lfloor>real simulations * q\<rfloor>
      in if i < length balances then Some (Math_round (balances ! i)) else None)"

definition runMonteCarloSimulation ::
  "store \<Rightarrow> CalculationParams \<Rightarrow> nat \<Rightarrow> (nat \<Rightarrow> real) \<Rightarrow> int \<Rightarrow> (error + SimulationResult list) \<times> store" where
  "runMonteCarloSimulation h p simulations randn thisYear =
     (case calculatePortfolioStats h (assets p) of (stats, h') \<Rightarrow>
        let baseReturn = (if useManualReturn p then manualReturnRate p else weightedReturn stats);
            baseYield = (if useManualReturn p then manualDividendYield p else weightedYield stats);
            totalExpectedReturnMean = (baseReturn + baseYield) / 100;
            volatilityStdDev = weightedVolatility stats / 100;
            years = retirementAge p - currentAge p;
            len = nat \<lfloor>years + 1\<rfloor>;
            annualContrib = (monthlyContribution p * 12) + annualExtraContribution p
        in if simulations > 0 \<and> len = 0 then (Inl TypeError, h')
           else
             let runs = trials randn totalExpectedReturnMean volatilityStdDev annualContrib
                          years (initialPrincipal p) simulations 0;
                 resultsByYear = map (\<lambda>i. map (\<lambda>run. run ! i) runs) [0..<len]
             in (Inr (map (\<lambda>(balances, i).
                             let ordered = sort balances
                             in \<lparr>sim_year = thisYear + int i,
                                 sim_age = currentAge p + real i,
                                 p10 = percentile ordered simulations (1 / 10),
                                 p50 = percentile ordered simulations (5 / 10),
                                 p90 = percentile ordered simulations (9 / 10)\<rparr>)
                          (zip resultsByYear [0..<len])), h'))"

section \<open>Stress tests\<close>

text \<open>
  A scenario's title and description are display texts; the model leaves them out.
\<close>

record StressTestScenario =
  scenario_id :: string
  events :: "LifecycleEvent list"
  customRetirementAge :: "real option"
  customLifeExpectancy :: "real option"

datatype Status = SAFE | WARNING | DANGER

record StressTestResult =
  scenario :: StressTestScenario
  finalBalance :: real
  baselineBalance :: real
  difference :: real
  isBankrupt :: bool
  bankruptAge :: "real option"
  status :: Status

definition event :: "real \<Rightarrow> real \<Rightarrow> SimulationEventType \<Rightarrow> real \<Rightarrow> LifecycleEvent" where
  \<comment> \<open>The object literal \<open>{ startAge, duration, type, value }\<close>.\<close>
  "event s d t v = \<lparr>startAge = s, duration = Some d, ev_type = t, ev_value = v, ev_name = None\<rparr>"

definition scenarios :: "CalculationParams \<Rightarrow> StressTestScenario list" where
  "scenarios p =
     [\<lparr>scenario_id = ''unemployment'',
       events = [event 40 2 CONTRIBUTION_STOP 0, event 40 2 RECURRING_EXPENSE 300000],
       customRetirementAge = None, customLifeExpectancy = None\<rparr>,
      \<lparr>scenario_id = ''illness'',
       events = [event 50 1 ONE_TIME_EXPENSE 1500000],
       customRetirementAge = None, customLifeExpectancy = None\<rparr>,
      \<lparr>scenario_id = ''crash'',
       events = [event (retirementAge p) 1 MARKET_CRASH 40],
       customRetirementAge = None, customLifeExpectancy = None\<rparr>,
      \<lparr>scenario_id = ''care'',
       events = [event 75 10 RECURRING_EXPENSE 480000],
       customRetirementAge = None, customLifeExpectancy = None\<rparr>,
      \<lparr>scenario_id = ''early_retire'',
       events = [event (retirementAge p - 5) 1 RETIREMENT_EARLY 5],
       customRetirementAge = None, customLifeExpectancy = None\<rparr>,
      \<lparr>scenario_id = ''low_return'',
       events = [event (currentAge p) 50 RETURN_REDUCTION 30],
       customRetirementAge = None, customLifeExpectancy = None\<rparr>,
      \<lparr>scenario_id = ''inflation'',
       events = [event (currentAge p) 50 RETURN_REDUCTION 20],
       customRetirementAge = None, customLifeExpectancy = None\<rparr>,
      \<lparr>scenario_id = ''longevity'',
       events = [],
       customRetirementAge = None, customLifeExpectancy = Some 100\<rparr>,
      \<lparr>scenario_id = ''perfect_storm'',
       events = [event (retirementAge p - 5) 1 RETIREMENT_EARLY 5,
                 event (retirementAge p - 5) 1 MARKET_CRASH 30,
                 event 60 1 ONE_TIME_EXPENSE 1000000],
       customRetirementAge = None, customLifeExpectancy = None\<rparr>]"

definition lastTotalBalance :: "YearlyResult list \<Rightarrow> real" where
  \<comment> \<open>\<open>res[res.length - 1]?.totalBalance || 0\<close>.\<close>
  "lastTotalBalance res = (case res of [] \<Rightarrow> 0 | _ \<Rightarrow> totalBalance (last res))"

definition scenarioLifeExpectancy :: "StressTestScenario \<Rightarrow> real" where
  \<comment> \<open>\<open>scenario.customLifeExpectancy || 85\<close>.\<close>
  "scenarioLifeExpectancy sc =
     (case customLifeExpectancy sc of None \<Rightarrow> 85 | Some l \<Rightarrow> if l = 0 then 85 else l)"

definition runScenario ::
  "store \<Rightarrow> CalculationParams \<Rightarrow> real \<Rightarrow> int \<Rightarrow> StressTestScenario \<Rightarrow> StressTestResult \<times> store" where
  "runScenario h p baseline thisYear sc =
     (case calculateCompoundInterest h p (events sc) (scenarioLifeExpectancy sc) thisYear of
        (res, h') \<Rightarrow>
          let final = lastTotalBalance res;
              bankruptYear = find (\<lambda>r. totalBalance r < 0) res;
              bankrupt = (bankruptYear \<noteq> None);
              ratio = (if baseline > 0 then final / baseline else 0);
              status0 = (if bankrupt \<or> final \<le> 0 then DANGER
                         else if ratio < 5 / 10 then DANGER
                         else if ratio < 8 / 10 then WARNING
                         else SAFE);
              status1 = (if scenario_id sc = ''longevity'' \<and> final > 0 then SAFE else status0)
          in (\<lparr>scenario = sc,
               finalBalance = final,
               baselineBalance = baseline,
               difference = final - baseline,
               isBankrupt = bankrupt,
               bankruptAge = map_option age bankruptYear,
               status = status1\<rparr>, h'))"

fun mapScenarios ::
  "store \<Rightarrow> CalculationParams \<Rightarrow> real \<Rightarrow> int \<Rightarrow> StressTestScenario list \<Rightarrow> StressTestResult list \<times> store" where
  "mapScenarios h p baseline thisYear [] = ([], h)"
| "mapScenarios h p baseline thisYear (sc # scs) =
     (case runScenario h p baseline thisYear sc of
        (r, h') \<Rightarrow>
          (case mapScenarios h' p baseline thisYear scs of (rs, h'') \<Rightarrow> (r # rs, h'')))"

definition runStressTests :: "store \<Rightarrow> CalculationParams \<Rightarrow> int \<Rightarrow> StressTestResult list \<times> store" where
  "runStressTests h p thisYear =
     (case calculateCompoundInterest h p [] 85 thisYear of
        (baselineResults, h') \<Rightarrow>
          mapScenarios h' p (lastTotalBalance baselineResults) thisYear (scenarios p))"

section \<open>Gap analysis\<close>

record GapAnalysisResult =
  shortfall :: real
  suggestedConservativeAmount :: real
  conservativeYield :: real

definition calculateGapAnalysis :: "PortfolioStats \<Rightarrow> PortfolioStats \<Rightarrow> real \<Rightarrow> GapAnalysisResult" where
  "calculateGapAnalysis realStats simulatedStats yearsToRetirement =
     (let fvReal = totalValue realStats *
            Math_pow (1 + (weightedReturn realStats + weightedYield realStats) / 100) yearsToRetirement;
          fvSimulated = totalValue simulatedStats *
            Math_pow (1 + (weightedReturn simulatedStats + weightedYield simulatedStats) / 100)
              yearsToRetirement;
          gap = fvSimulated - fvReal;
          conservative = 45 / 1000
      in \<lparr>shortfall = gap,
          suggestedConservativeAmount =
            (if gap > 0 then gap / Math_pow (1 + conservative) yearsToRetirement else 0),
          conservativeYield = conservative * 100\<rparr>)"

section \<open>Notions of the specification\<close>

definition baseTotal :: "store \<Rightarrow> ref list \<Rightarrow> real" where
  \<comment> \<open>The total base-currency value of a holdings list.\<close>
  "baseTotal h rs = sum_list (map (\<lambda>r. hkdValueOf (h r)) rs)"

definition share :: "real \<Rightarrow> Asset \<Rightarrow> real" where
  \<comment> \<open>A holding's share of the total value \<open>v\<close>, in percent, to one decimal.\<close>
  "share v a = toFixed1 (hkdValueOf a / v * 100)"

definition writeBack :: "real \<Rightarrow> ref list \<Rightarrow> store \<Rightarrow> store" where
  \<comment> \<open>The store in which the allocation of each listed asset is its share, and
      nothing else differs.\<close>
  "writeBack v rs h = (\<lambda>x. if x \<in> set rs then (h x)\<lparr>allocation := share v (h x)\<rparr> else h x)"

definition aggregated :: "ref list \<Rightarrow> store \<Rightarrow> store" where
  \<comment> \<open>The store an aggregation of the list leaves: the shares are written unless the
      total value is zero.\<close>
  "aggregated rs h = (if baseTotal h rs = 0 then h else writeBack (baseTotal h rs) rs h)"

definition classify :: "bool \<Rightarrow> bool \<Rightarrow> real \<Rightarrow> real \<Rightarrow> Status" where
  \<comment> \<open>The classification rule of the stress test runner, in the words of section 4.6.\<close>
  "classify longevity bankrupt final baseline =
     (let ratio = (if baseline \<le> 0 then 0 else final / baseline)
      in if longevity \<and> final > 0 then SAFE
         else if bankrupt \<or> final \<le> 0 \<or> ratio < 5 / 10 then DANGER
         else if ratio < 8 / 10 then WARNING
         else SAFE)"

definition weighted :: "(Asset \<Rightarrow> real) \<Rightarrow> store \<Rightarrow> ref list \<Rightarrow> real" where
  \<comment> \<open>A weighted statistic: the metric of each holding times its share of the value.\<close>
  "weighted f h rs = sum_list (map (\<lambda>r. f (h r) * (hkdValueOf (h r) / baseTotal h rs)) rs)"

definition keep :: "LifecycleEvent \<Rightarrow> real" where
  \<comment> \<open>The factor \<open>1 - magnitude / 100\<close> of a crash or of a return reduction.\<close>
  "keep e = 1 - ev_value e / 100"

definition eventsOf :: "SimulationEventType set \<Rightarrow> Env \<Rightarrow> nat \<Rightarrow> LifecycleEvent list" where
  \<comment> \<open>The events of the given kinds that are active in simulated year \<open>yr\<close>, in list
      order.\<close>
  "eventsOf kinds env yr =
     filter (\<lambda>e. ev_type e \<in> kinds)
       (filter (isActive (currentAge (env_params env) + real yr)) (env_events env))"

definition nearlyBalanced :: "YearlyResult \<Rightarrow> bool" where
  \<comment> \<open>Net worth is assets less liabilities up to one currency unit, nominal and real.\<close>
  "nearlyBalanced r =
     (\<bar>netWorth r - (totalBalance r - totalLiabilities r)\<bar> \<le> 1
      \<and> \<bar>netWorthReal r - (totalBalanceReal r - totalLiabilitiesReal r)\<bar> \<le> 1)"

section \<open>Example inputs\<close>

definition holding :: "real \<Rightarrow> real \<Rightarrow> Asset" where
  \<comment> \<open>A cash holding of \<open>q\<close> units at a price of 1 HKD, with allocation \<open>a\<close>.\<close>
  "holding q a =
     \<lparr>asset_id = ''5'', name = ''Cash'', symbol = None, asset_type = Cash, region = Asia,
      currency = ''HKD'', allocation = a, quantity = q, expectedReturn = 3 / 2,
      dividendYield = 0, volatility = 0, currentPrice = 1, weeklyChange = 0\<rparr>"

definition loan :: "bool \<Rightarrow> real \<Rightarrow> MortgageParams" where
  \<comment> \<open>A mortgage without interest whose term has run out, \<open>owed\<close> still being due.\<close>
  "loan b owed =
     \<lparr>hasMortgage = b, remainingPrincipal = owed, annualRate = 0, remainingYears = 0,
      monthlyPayment = 0, reinvestAfterPayoff = False\<rparr>"

definition plan :: "real \<Rightarrow> real \<Rightarrow> MortgageParams \<Rightarrow> ref list \<Rightarrow> CalculationParams" where
  \<comment> \<open>Parameters with manual rates of zero, no contributions and no inflation.\<close>
  "plan a0 principal0 m rs =
     \<lparr>currentAge = a0, retirementAge = 65, monthlyIncome = 0, targetMonthlyIncome = 0,
      targetAnnualYield = 5, initialPrincipal = principal0, monthlyContribution = 0,
      annualExtraContribution = 0, inflationRate = 0, mortgage = m,
      useManualReturn = True, manualReturnRate = 0, manualDividendYield = 0,
      assets = rs, simulatedAssets = [], lastPortfolioUpdate = None\<rparr>"

definition stormEnv :: Env where
  \<comment> \<open>A year at age 50 with an expense, a crash, a return reduction and a stop of
      contributions, listed out of order, and a crash that only starts at 51.\<close>
  "stormEnv =
     \<lparr>env_params = (plan 49 1000 (loan False 0) [])\<lparr>monthlyContribution := 500,
                                                     annualExtraContribution := 2000\<rparr>,
      env_events = [event 50 1 ONE_TIME_EXPENSE 100,
                    event 50 1 MARKET_CRASH 50,
                    event 50 1 RETURN_REDUCTION 50,
                    event 50 1 CONTRIBUTION_STOP 0,
                    event 51 1 MARKET_CRASH 10],
      effectiveRetirementAge = 65,
      annualPriceAppreciation = 12,
      annualDividendYield = 4,
      mortgageMonthlyPayment = 0,
      currentYear = 2024\<rparr>"

definition stormState :: SimState where
  "stormState =
     \<lparr>currentBalance = 1000, totalContributed = 1000, st_totalAppreciation = 0,
      st_totalDividends = 0, mortgageBalance = 0, monthsRemainingOnMortgage = 0\<rparr>"

section \<open>The portfolio aggregator in closed form\<close>

lemma foldl_add_sum_list:
  "foldl (\<lambda>t r. t + f r) a rs = a + sum_list (map f rs)" for a :: real
  by (induction rs arbitrary: a) (simp_all add: add.assoc)

lemma firstPass_baseTotal: "firstPass h rs = baseTotal h rs"
  by (simp add: firstPass_def baseTotal_def foldl_add_sum_list)

lemma hkdValueOf_allocation [simp]: "hkdValueOf (a\<lparr>allocation := x\<rparr>) = hkdValueOf a"
  by (simp add: hkdValueOf_def)

lemma secondPass_closed:
  "foldl (secondPassStep v) (wr, wy, wv, h) rs =
     (wr + sum_list (map (\<lambda>r. expectedReturn (h r) * (hkdValueOf (h r) / v)) rs),
      wy + sum_list (map (\<lambda>r. dividendYield (h r) * (hkdValueOf (h r) / v)) rs),
      wv + sum_list (map (\<lambda>r. volatility (h r) * (hkdValueOf (h r) / v)) rs),
      writeBack v rs h)"
proof (induction rs arbitrary: wr wy wv h)
  case Nil
  show ?case by (simp add: writeBack_def)
next
  case (Cons r rs)
  let ?h = "h(r := (h r)\<lparr>allocation := toFixed1 (hkdValueOf (h r) / v * 100)\<rparr>)"
  have er: "\<And>x. expectedReturn (?h x) = expectedReturn (h x)" by simp
  have dy: "\<And>x. dividendYield (?h x) = dividendYield (h x)" by simp
  have vo: "\<And>x. volatility (?h x) = volatility (h x)" by simp
  have hv: "\<And>x. hkdValueOf (?h x) = hkdValueOf (h x)" by simp
  have wb: "writeBack v rs ?h = writeBack v (r # rs) h"
    by (rule ext) (simp add: writeBack_def share_def)
  have step: "secondPassStep v (wr, wy, wv, h) r =
      (wr + expectedReturn (h r) * (hkdValueOf (h r) / v),
       wy + dividendYield (h r) * (hkdValueOf (h r) / v),
       wv + volatility (h r) * (hkdValueOf (h r) / v), ?h)"
    by (simp add: secondPassStep_def Let_def)
  have "foldl (secondPassStep v) (wr, wy, wv, h) (r # rs) =
        foldl (secondPassStep v) (secondPassStep v (wr, wy, wv, h) r) rs"
    by simp
  also have "\<dots> =
      (wr + expectedReturn (h r) * (hkdValueOf (h r) / v)
          + sum_list (map (\<lambda>r. expectedReturn (?h r) * (hkdValueOf (?h r) / v)) rs),
       wy + dividendYield (h r) * (hkdValueOf (h r) / v)
          + sum_list (map (\<lambda>r. dividendYield (?h r) * (hkdValueOf (?h r) / v)) rs),
       wv + volatility (h r) * (hkdValueOf (h r) / v)
          + sum_list (map (\<lambda>r. volatility (?h r) * (hkdValueOf (?h r) / v)) rs),
       writeBack v rs ?h)"
    unfolding step by (rule Cons.IH)
  finally show ?case
    by (simp only: er dy vo hv wb list.map sum_list.Cons add.assoc)
qed

lemma calculatePortfolioStats_closed:
  "calculatePortfolioStats h rs =
     (if baseTotal h rs = 0
      then \<lparr>weightedReturn = 0, weightedYield = 0, weightedVolatility = 0, totalValue = 0\<rparr>
      else \<lparr>weightedReturn = weighted expectedReturn h rs,
            weightedYield = weighted dividendYield h rs,
            weightedVolatility = weighted volatility h rs,
            totalValue = baseTotal h rs\<rparr>,
      aggregated rs h)"
  by (simp add: calculatePortfolioStats_def firstPass_baseTotal secondPass_closed
        aggregated_def weighted_def Let_def)

lemma snd_calculatePortfolioStats: "snd (calculatePortfolioStats h rs) = aggregated rs h"
  by (simp add: calculatePortfolioStats_closed)

lemma holding_value: "hkdValueOf (holding q a) = q"
  by (simp add: hkdValueOf_def holding_def convertToHKD_def EXCHANGE_RATES_def)

text \<open>
  Claim C7. When the total base-currency value of the holdings is exactly zero (the
  empty list included), the aggregator returns the all-zero statistics and the store
  it was given: the second pass does not run and no allocation is written.
\<close>

theorem zero_total_returns_zero_statistics:
  "baseTotal h rs = 0 \<Longrightarrow>
   calculatePortfolioStats h rs =
     (\<lparr>weightedReturn = 0, weightedYield = 0, weightedVolatility = 0, totalValue = 0\<rparr>, h)"
  by (simp add: calculatePortfolioStats_def firstPass_baseTotal Let_def)

theorem zero_total_returns_zero_statistics_witness:
  "baseTotal (\<lambda>_. holding 0 37) [0, 1] = 0
   \<and> calculatePortfolioStats (\<lambda>_. holding 0 37) [0, 1] =
       (\<lparr>weightedReturn = 0, weightedYield = 0, weightedVolatility = 0, totalValue = 0\<rparr>,
        \<lambda>_. holding 0 37)
   \<and> baseTotal (\<lambda>_. holding 1 0) [] = 0
   \<and> calculatePortfolioStats (\<lambda>_. holding 1 0) [] =
       (\<lparr>weightedReturn = 0, weightedYield = 0, weightedVolatility = 0, totalValue = 0\<rparr>,
        \<lambda>_. holding 1 0)"
proof -
  have a: "baseTotal (\<lambda>_. holding 0 37) [0, 1] = 0"
    by (simp add: baseTotal_def holding_value)
  have b: "baseTotal (\<lambda>_. holding 1 0) [] = 0"
    by (simp add: baseTotal_def)
  show ?thesis
    using a b zero_total_returns_zero_statistics [OF a] zero_total_returns_zero_statistics [OF b]
    by simp
qed

lemma toFixed1_error: "\<bar>toFixed1 x - x\<bar> \<le> 1 / 20"
proof (cases "x < 0")
  case True
  define n where "n = \<lfloor>(- x) * 10 + 1 / 2\<rfloor>"
  have "of_int n \<le> (- x) * 10 + 1 / 2" "(- x) * 10 + 1 / 2 < of_int n + 1"
    unfolding n_def by linarith+
  moreover have "toFixed1 x = - (of_int n / 10)"
    unfolding n_def toFixed1_def using True by (simp only: if_True)
  ultimately show ?thesis by linarith
next
  case False
  define n where "n = \<lfloor>x * 10 + 1 / 2\<rfloor>"
  have "of_int n \<le> x * 10 + 1 / 2" "x * 10 + 1 / 2 < of_int n + 1"
    unfolding n_def by linarith+
  moreover have "toFixed1 x = of_int n / 10"
    unfolding n_def toFixed1_def using False by (simp only: if_False)
  ultimately show ?thesis by linarith
qed

lemma toFixed1_tenths: "\<exists>k::int. toFixed1 x = of_int k / 10"
proof (cases "x < 0")
  case True
  then have "toFixed1 x = of_int (- \<lfloor>(- x) * 10 + 1 / 2\<rfloor>) / 10"
    by (simp add: toFixed1_def)
  then show ?thesis by blast
next
  case False
  then have "toFixed1 x = of_int \<lfloor>x * 10 + 1 / 2\<rfloor> / 10"
    by (simp add: toFixed1_def)
  then show ?thesis by blast
qed

lemma sum_list_close:
  fixes f g :: "'a \<Rightarrow> real"
  assumes "\<And>x. x \<in> set xs \<Longrightarrow> \<bar>f x - g x\<bar> \<le> c"
  shows "\<bar>sum_list (map f xs) - sum_list (map g xs)\<bar> \<le> real (length xs) * c"
  using assms
proof (induction xs)
  case Nil
  show ?case by simp
next
  case (Cons x xs)
  have a: "\<bar>f x - g x\<bar> \<le> c" using Cons.prems by simp
  have b: "\<bar>sum_list (map f xs) - sum_list (map g xs)\<bar> \<le> real (length xs) * c"
    using Cons by simp
  have "real (length (x # xs)) * c = c + real (length xs) * c"
    by (simp add: algebra_simps)
  with a b show ?case by simp
qed

lemma percent_sum:
  assumes "baseTotal h rs \<noteq> 0"
  shows "sum_list (map (\<lambda>r. hkdValueOf (h r) / baseTotal h rs * 100) rs) = 100"
proof -
  have "sum_list (map (\<lambda>r. hkdValueOf (h r) * (100 / baseTotal h rs)) rs)
        = baseTotal h rs * (100 / baseTotal h rs)"
    unfolding baseTotal_def by (simp only: sum_list_mult_const)
  moreover have "(\<lambda>r. hkdValueOf (h r) / baseTotal h rs * 100)
                 = (\<lambda>r. hkdValueOf (h r) * (100 / baseTotal h rs))"
    by (rule ext) simp
  ultimately show ?thesis using assms by simp
qed

text \<open>
  Claim C8. When the total base-currency value \<open>V\<close> of the holdings is positive, the
  aggregator leaves a store in which the allocation of every listed holding is its
  share of \<open>V\<close> in percent, rounded to one decimal (a multiple of one tenth, at most
  0.05 away from the exact share), and nothing else differs; the allocations written
  sum to 100 up to 0.05 per holding.
\<close>

theorem allocation_shares_sum_to_100:
  "0 < baseTotal h rs \<Longrightarrow>
   snd (calculatePortfolioStats h rs) = writeBack (baseTotal h rs) rs h
   \<and> (\<forall>r \<in> set rs.
         allocation (snd (calculatePortfolioStats h rs) r)
           = toFixed1 (hkdValueOf (h r) / baseTotal h rs * 100)
       \<and> \<bar>allocation (snd (calculatePortfolioStats h rs) r)
            - hkdValueOf (h r) / baseTotal h rs * 100\<bar> \<le> 5 / 100
       \<and> (\<exists>k::int. allocation (snd (calculatePortfolioStats h rs) r) = of_int k / 10))
   \<and> \<bar>sum_list (map (\<lambda>r. allocation (snd (calculatePortfolioStats h rs) r)) rs) - 100\<bar>
         \<le> real (length rs) * (5 / 100)"
proof -
  assume pos: "0 < baseTotal h rs"
  let ?v = "baseTotal h rs"
  let ?h' = "snd (calculatePortfolioStats h rs)"
  have w: "?h' = writeBack ?v rs h"
    using pos by (simp add: snd_calculatePortfolioStats aggregated_def)
  have al: "allocation (?h' r) = toFixed1 (hkdValueOf (h r) / ?v * 100)" if "r \<in> set rs" for r
    using that by (simp add: w writeBack_def share_def)
  have err: "\<bar>allocation (?h' r) - hkdValueOf (h r) / ?v * 100\<bar> \<le> 5 / 100" if "r \<in> set rs" for r
    using toFixed1_error [of "hkdValueOf (h r) / ?v * 100"] al [OF that] by simp
  have each: "\<forall>r \<in> set rs.
           allocation (?h' r) = toFixed1 (hkdValueOf (h r) / ?v * 100)
         \<and> \<bar>allocation (?h' r) - hkdValueOf (h r) / ?v * 100\<bar> \<le> 5 / 100
         \<and> (\<exists>k::int. allocation (?h' r) = of_int k / 10)"
    using al err toFixed1_tenths by simp
  have "\<bar>sum_list (map (\<lambda>r. allocation (?h' r)) rs)
         - sum_list (map (\<lambda>r. hkdValueOf (h r) / ?v * 100) rs)\<bar> \<le> real (length rs) * (5 / 100)"
    by (rule sum_list_close) (rule err)
  moreover have "sum_list (map (\<lambda>r. hkdValueOf (h r) / ?v * 100) rs) = 100"
    using pos by (intro percent_sum) simp
  ultimately have "\<bar>sum_list (map (\<lambda>r. allocation (?h' r)) rs) - 100\<bar> \<le> real (length rs) * (5 / 100)"
    by simp
  with w each show ?thesis by blast
qed

theorem allocation_shares_sum_to_100_witness:
  "0 < baseTotal (\<lambda>_. holding 1 0) [0, 1, 2]
   \<and> map (\<lambda>r. allocation (snd (calculatePortfolioStats (\<lambda>_. holding 1 0) [0, 1, 2]) r)) [0, 1, 2]
       = [333 / 10, 333 / 10, 333 / 10]
   \<and> \<bar>sum_list (map (\<lambda>r. allocation (snd (calculatePortfolioStats (\<lambda>_. holding 1 0) [0, 1, 2]) r))
                  [0, 1, 2]) - 100\<bar> \<le> real (length [0::nat, 1, 2]) * (5 / 100)"
proof -
  have a: "baseTotal (\<lambda>_. holding 1 0) [0, 1, 2] = 3"
    by (simp add: baseTotal_def holding_value)
  then have pos: "0 < baseTotal (\<lambda>_. holding 1 0) [0, 1, 2]"
    by simp
  have t: "toFixed1 (100 / 3) = 333 / 10"
    by (simp add: toFixed1_def)
  from allocation_shares_sum_to_100 [OF pos]
  have w: "snd (calculatePortfolioStats (\<lambda>_. holding 1 0) [0, 1, 2])
             = writeBack 3 [0, 1, 2] (\<lambda>_. holding 1 0)"
    and s: "\<bar>sum_list (map (\<lambda>r. allocation (snd (calculatePortfolioStats (\<lambda>_. holding 1 0) [0, 1, 2]) r))
                  [0, 1, 2]) - 100\<bar> \<le> real (length [0::nat, 1, 2]) * (5 / 100)"
    unfolding a by blast+
  have "map (\<lambda>r. allocation (snd (calculatePortfolioStats (\<lambda>_. holding 1 0) [0, 1, 2]) r)) [0, 1, 2]
          = [333 / 10, 333 / 10, 333 / 10]"
    unfolding w by (simp add: writeBack_def share_def holding_value t)
  with pos s show ?thesis by blast
qed

section \<open>The projection simulator in closed form\<close>

lemma monthLoop_unrolled:
  "monthLoop f (Suc 0) st = f (f (f (f (f (f (f (f (f (f (f (f st)))))))))))"
  by (simp add: monthLoop.simps)

lemma yearLoop_step:
  "real yr \<le> n \<Longrightarrow>
   yearLoop env n yr st =
     (let res = yearStep env yr st in snd res # yearLoop env n (Suc yr) (fst res))"
  by (subst yearLoop.simps) (simp add: case_prod_beta Let_def)

lemma yearLoop_stop: "\<not> real yr \<le> n \<Longrightarrow> yearLoop env n yr st = []"
  by (subst yearLoop.simps) simp

lemma foldl_crash:
  "foldl (\<lambda>s e. s\<lparr>currentBalance := currentBalance s * (1 - ev_value e / 100)\<rparr>) st es =
     st\<lparr>currentBalance := currentBalance st * prod_list (map (\<lambda>e. 1 - ev_value e / 100) es)\<rparr>"
  by (induction es arbitrary: st) (simp_all add: mult.assoc)

lemma foldl_expense:
  "foldl (\<lambda>s e. s\<lparr>currentBalance := currentBalance s - ev_value e\<rparr>) st es =
     st\<lparr>currentBalance := currentBalance st - sum_list (map ev_value es)\<rparr>"
  by (induction es arbitrary: st) (simp_all add: algebra_simps)

lemma foldl_reduce:
  "foldl (\<lambda>(a, y) e. (a * (1 - ev_value e / 100), y * (1 - ev_value e / 100))) (a0, y0) es =
     (a0 * prod_list (map (\<lambda>e. 1 - ev_value e / 100) es),
      y0 * prod_list (map (\<lambda>e. 1 - ev_value e / 100) es))"
  by (induction es arbitrary: a0 y0) (simp_all add: mult.assoc)

lemma yearStep_closed:
  "yearStep env yr st =
     (let p = env_params env;
          stopped = (eventsOf {CONTRIBUTION_STOP} env yr \<noteq> []);
          retired = (currentAge p + real yr \<ge> effectiveRetirementAge env);
          reduction = prod_list (map keep (eventsOf {RETURN_REDUCTION} env yr));
          balance = currentBalance st * prod_list (map keep (eventsOf {MARKET_CRASH} env yr))
                    - sum_list (map ev_value (eventsOf {ONE_TIME_EXPENSE, RECURRING_EXPENSE} env yr))
      in restOfYear env yr
           (annualPriceAppreciation env * reduction)
           (annualDividendYield env * reduction)
           (if stopped \<or> retired then 0 else monthlyContribution p)
           (if stopped \<or> retired then 0 else annualExtraContribution p)
           (st\<lparr>currentBalance := balance\<rparr>))"
  unfolding yearStep_def applyCrashes_def applyExpenses_def reducedRates_def
    effectiveMonthlyContrib_def effectiveAnnualContrib_def eventsOf_def keep_def
  by (simp add: Let_def foldl_crash foldl_expense foldl_reduce)

lemma snd_restOfYear:
  "snd (restOfYear env yr a y mc ac st) = emitResult env yr y (fst (restOfYear env yr a y mc ac st))"
  by (simp add: restOfYear_def Let_def)

lemma yearStep_emits:
  "\<exists>y. snd (yearStep env yr st) = emitResult env yr y (fst (yearStep env yr st))"
  unfolding yearStep_closed Let_def by (rule exI) (rule snd_restOfYear)

lemma age_emitResult: "age (emitResult env yr y st) = currentAge (env_params env) + real yr"
  by (simp add: emitResult_def Let_def)

lemma age_yearStep: "age (snd (yearStep env yr st)) = currentAge (env_params env) + real yr"
  using yearStep_emits [of env yr st] by (auto simp: age_emitResult)

lemma ages_yearLoop:
  "map age (yearLoop env n yr st) =
     map (\<lambda>k. currentAge (env_params env) + real k) [yr ..< nat (\<lfloor>n\<rfloor> + 1)]"
proof (induction env n yr st rule: yearLoop.induct)
  case (1 env n yr st)
  show ?case
  proof (cases "real yr \<le> n")
    case True
    then have "int yr \<le> \<lfloor>n\<rfloor>" by (simp add: le_floor_iff)
    then have lt: "yr < nat (\<lfloor>n\<rfloor> + 1)" by simp
    have ih: "map age (yearLoop env n (Suc yr) (fst (yearStep env yr st))) =
          map (\<lambda>k. currentAge (env_params env) + real k) [Suc yr ..< nat (\<lfloor>n\<rfloor> + 1)]"
      using "1.IH" [OF True, of "fst (yearStep env yr st)" "snd (yearStep env yr st)"]
      by simp
    show ?thesis
      by (simp only: yearLoop_step [OF True] Let_def list.map ih age_yearStep upt_conv_Cons [OF lt])
  next
    case False
    then have "\<not> int yr \<le> \<lfloor>n\<rfloor>" by (simp add: le_floor_iff)
    then have "nat (\<lfloor>n\<rfloor> + 1) \<le> yr" by simp
    then show ?thesis by (simp add: yearLoop_stop [OF False])
  qed
qed

lemma calculateCompoundInterest_closed:
  "calculateCompoundInterest h p evs lifeExpectancy thisYear =
     (if lifeExpectancy - currentAge p \<le> 0 then []
      else firstResult (initialEnv p evs (fst (calculatePortfolioStats h (assets p))) thisYear)
             (initialState p)
           # yearLoop (initialEnv p evs (fst (calculatePortfolioStats h (assets p))) thisYear)
               (lifeExpectancy - currentAge p) 1 (initialState p),
      aggregated (assets p) h)"
  by (simp add: calculateCompoundInterest_def case_prod_beta Let_def snd_calculatePortfolioStats)

lemma initialEnv_sel:
  "env_params (initialEnv p evs stats y) = p"
  "env_events (initialEnv p evs stats y) = evs"
  "effectiveRetirementAge (initialEnv p evs stats y) = resolveRetirementAge p evs"
  "annualPriceAppreciation (initialEnv p evs stats y) =
     (if useManualReturn p then manualReturnRate p else weightedReturn stats)"
  "annualDividendYield (initialEnv p evs stats y) =
     (if useManualReturn p then manualDividendYield p else weightedYield stats)"
  "mortgageMonthlyPayment (initialEnv p evs stats y) = initialPayment (mortgage p)"
  "currentYear (initialEnv p evs stats y) = y"
  by (simp_all add: initialEnv_def)

lemma ages_projection:
  "map age (fst (calculateCompoundInterest h p evs lifeExpectancy thisYear)) =
     (if lifeExpectancy - currentAge p \<le> 0 then []
      else map (\<lambda>k. currentAge p + real k) [0 ..< nat \<lfloor>lifeExpectancy - currentAge p\<rfloor> + 1])"
proof -
  define d where "d = lifeExpectancy - currentAge p"
  show ?thesis
    unfolding d_def [symmetric]
  proof (cases "d \<le> 0")
    case True
    then show "map age (fst (calculateCompoundInterest h p evs lifeExpectancy thisYear)) =
      (if d \<le> 0 then [] else map (\<lambda>k. currentAge p + real k) [0 ..< nat \<lfloor>d\<rfloor> + 1])"
      by (simp add: calculateCompoundInterest_closed d_def)
  next
    case False
    then have "0 \<le> \<lfloor>d\<rfloor>" by simp
    then have n: "nat (\<lfloor>d\<rfloor> + 1) = nat \<lfloor>d\<rfloor> + 1"
      by linarith
    have u: "[0 ..< nat \<lfloor>d\<rfloor> + 1] = 0 # [1 ..< nat \<lfloor>d\<rfloor> + 1]"
      by (simp add: upt_conv_Cons del: upt_Suc)
    have "fst (calculateCompoundInterest h p evs lifeExpectancy thisYear) =
        firstResult (initialEnv p evs (fst (calculatePortfolioStats h (assets p))) thisYear)
             (initialState p)
           # yearLoop (initialEnv p evs (fst (calculatePortfolioStats h (assets p))) thisYear)
               d 1 (initialState p)"
      using False by (simp add: calculateCompoundInterest_closed d_def)
    then have "map age (fst (calculateCompoundInterest h p evs lifeExpectancy thisYear)) =
        currentAge p # map (\<lambda>k. currentAge p + real k) [1 ..< nat \<lfloor>d\<rfloor> + 1]"
      by (simp only: list.map ages_yearLoop n initialEnv_sel)
         (simp add: firstResult_def initialEnv_sel)
    with False show "map age (fst (calculateCompoundInterest h p evs lifeExpectancy thisYear)) =
      (if d \<le> 0 then [] else map (\<lambda>k. currentAge p + real k) [0 ..< nat \<lfloor>d\<rfloor> + 1])"
      by (simp only: u list.map if_False) simp
  qed
qed

lemma Math_round_diff: "\<bar>Math_round (x - y) - (Math_round x - Math_round y)\<bar> \<le> 1"
proof -
  define a where "a = \<lfloor>x - y + 1 / 2\<rfloor>"
  define b where "b = \<lfloor>x + 1 / 2\<rfloor>"
  define c where "c = \<lfloor>y + 1 / 2\<rfloor>"
  have "of_int a \<le> x - y + 1 / 2" "x - y + 1 / 2 < of_int a + 1"
       "of_int b \<le> x + 1 / 2" "x + 1 / 2 < of_int b + 1"
       "of_int c \<le> y + 1 / 2" "y + 1 / 2 < of_int c + 1"
    unfolding a_def b_def c_def by linarith+
  then have "(of_int (a - (b - c)) :: real) < 2" "(- 2 :: real) < of_int (a - (b - c))"
    by simp_all
  then have "a - (b - c) < 2" "- 2 < a - (b - c)"
    by linarith+
  then have "\<bar>a - (b - c)\<bar> \<le> 1" by linarith
  then have "\<bar>(of_int (a - (b - c)) :: real)\<bar> \<le> 1"
    by (metis of_int_abs of_int_le_1_iff)
  then show ?thesis
    by (simp add: Math_round_def a_def b_def c_def)
qed

lemma nearlyBalanced_emitResult: "nearlyBalanced (emitResult env yr y st)"
  unfolding nearlyBalanced_def emitResult_def Let_def
  by (simp add: Math_round_diff left_diff_distrib)

lemma nearlyBalanced_yearStep: "nearlyBalanced (snd (yearStep env yr st))"
  using yearStep_emits [of env yr st] by (auto simp: nearlyBalanced_emitResult)

lemma nearlyBalanced_yearLoop: "r \<in> set (yearLoop env n yr st) \<Longrightarrow> nearlyBalanced r"
proof (induction env n yr st rule: yearLoop.induct)
  case (1 env n yr st)
  show ?case
  proof (cases "real yr \<le> n")
    case True
    from "1.prems" have "r = snd (yearStep env yr st)
        \<or> r \<in> set (yearLoop env n (Suc yr) (fst (yearStep env yr st)))"
      by (simp add: yearLoop_step [OF True] Let_def)
    then show ?thesis
    proof
      assume "r = snd (yearStep env yr st)"
      then show ?thesis by (simp add: nearlyBalanced_yearStep)
    next
      assume "r \<in> set (yearLoop env n (Suc yr) (fst (yearStep env yr st)))"
      then show ?thesis
        using "1.IH" [OF True, of "fst (yearStep env yr st)" "snd (yearStep env yr st)"]
        by simp
    qed
  next
    case False
    with "1.prems" show ?thesis by (simp add: yearLoop_stop)
  qed
qed

lemma nearlyBalanced_firstResult: "nearlyBalanced (firstResult env st)"
  by (simp add: nearlyBalanced_def firstResult_def Let_def)

lemma nearlyBalanced_projection:
  "r \<in> set (fst (calculateCompoundInterest h p evs lifeExpectancy thisYear)) \<Longrightarrow> nearlyBalanced r"
  by (auto simp: calculateCompoundInterest_closed nearlyBalanced_firstResult
        split: if_splits dest: nearlyBalanced_yearLoop)

lemma plan_sel:
  "currentAge (plan a b m rs) = a" "retirementAge (plan a b m rs) = 65"
  "initialPrincipal (plan a b m rs) = b" "monthlyContribution (plan a b m rs) = 0"
  "annualExtraContribution (plan a b m rs) = 0" "inflationRate (plan a b m rs) = 0"
  "mortgage (plan a b m rs) = m" "useManualReturn (plan a b m rs) = True"
  "manualReturnRate (plan a b m rs) = 0" "manualDividendYield (plan a b m rs) = 0"
  "assets (plan a b m rs) = rs"
  by (simp_all add: plan_def)

lemma loan_sel:
  "hasMortgage (loan b owed) = b" "remainingPrincipal (loan b owed) = owed"
  "annualRate (loan b owed) = 0" "remainingYears (loan b owed) = 0"
  "monthlyPayment (loan b owed) = 0" "reinvestAfterPayoff (loan b owed) = False"
  by (simp_all add: loan_def)

lemmas run_simps = calculateCompoundInterest_closed yearLoop_step yearLoop_stop yearStep_closed
  eventsOf_def keep_def isActive_def event_def restOfYear_def monthLoop_unrolled monthStep_def
  emitResult_def firstResult_def Math_round_def Math_pow_def Let_def
  plan_sel loan_sel initialEnv_sel initialPayment_def resolveRetirementAge_def initialState_def

lemma projection_with_loan:
  "fst (calculateCompoundInterest h (plan 84 (803 / 8) (loan True (5 / 8)) []) [] 85 2024) =
     [\<lparr>age = 84, year = 2024, totalPrincipal = 803 / 8, totalAppreciation = 0,
       totalDividends = 0, totalBalance = 803 / 8, totalLiabilities = 5 / 8,
       netWorth = 399 / 4, yearlyPassiveIncome = 0,
       totalPrincipalReal = 803 / 8, totalAppreciationReal = 0,
       totalDividendsReal = 0, totalBalanceReal = 803 / 8,
       totalLiabilitiesReal = 5 / 8, netWorthReal = 399 / 4,
       yearlyPassiveIncomeReal = 0\<rparr>,
      \<lparr>age = 85, year = 2025, totalPrincipal = 100, totalAppreciation = 0,
       totalDividends = 0, totalBalance = 100, totalLiabilities = 1,
       netWorth = 100, yearlyPassiveIncome = 0, totalPrincipalReal = 100,
       totalAppreciationReal = 0, totalDividendsReal = 0,
       totalBalanceReal = 100, totalLiabilitiesReal = 1, netWorthReal = 100,
       yearlyPassiveIncomeReal = 0\<rparr>]"
  by (simp add: run_simps cong: let_weak_cong prod.case_cong_weak)

lemma projection_half_year:
  "fst (calculateCompoundInterest h (plan (169 / 2) 1000 (loan False 0) []) [] 85 2024) =
     [\<lparr>age = 169 / 2, year = 2024, totalPrincipal = 1000, totalAppreciation = 0,
       totalDividends = 0, totalBalance = 1000, totalLiabilities = 0,
       netWorth = 1000, yearlyPassiveIncome = 0, totalPrincipalReal = 1000,
       totalAppreciationReal = 0, totalDividendsReal = 0,
       totalBalanceReal = 1000, totalLiabilitiesReal = 0, netWorthReal = 1000,
       yearlyPassiveIncomeReal = 0\<rparr>]"
  by (simp add: run_simps cong: let_weak_cong prod.case_cong_weak)

text \<open>
  Claim C1, as amended. The fields of a record are rounded one by one, so in every
  record the projection emits, net worth equals total balance less total liabilities
  up to one currency unit, in nominal and in real terms; in the first record, which is
  not rounded, the two equalities hold exactly.
\<close>

theorem net_worth_within_one_unit:
  "(\<forall>r \<in> set (fst (calculateCompoundInterest h p evs lifeExpectancy thisYear)).
      \<bar>netWorth r - (totalBalance r - totalLiabilities r)\<bar> \<le> 1
      \<and> \<bar>netWorthReal r - (totalBalanceReal r - totalLiabilitiesReal r)\<bar> \<le> 1)
   \<and> (\<forall>r rest. fst (calculateCompoundInterest h p evs lifeExpectancy thisYear) = r # rest \<longrightarrow>
          netWorth r = totalBalance r - totalLiabilities r
          \<and> netWorthReal r = totalBalanceReal r - totalLiabilitiesReal r)"
proof -
  have "\<forall>r \<in> set (fst (calculateCompoundInterest h p evs lifeExpectancy thisYear)).
      \<bar>netWorth r - (totalBalance r - totalLiabilities r)\<bar> \<le> 1
      \<and> \<bar>netWorthReal r - (totalBalanceReal r - totalLiabilitiesReal r)\<bar> \<le> 1"
    using nearlyBalanced_projection [of _ h p evs lifeExpectancy thisYear]
    unfolding nearlyBalanced_def by blast
  moreover have "\<forall>r rest. fst (calculateCompoundInterest h p evs lifeExpectancy thisYear) = r # rest \<longrightarrow>
          netWorth r = totalBalance r - totalLiabilities r
          \<and> netWorthReal r = totalBalanceReal r - totalLiabilitiesReal r"
    by (auto simp: calculateCompoundInterest_closed firstResult_def Let_def split: if_splits)
  ultimately show ?thesis by blast
qed

theorem net_worth_within_one_unit_witness:
  "fst (calculateCompoundInterest (\<lambda>_. holding 0 0) (plan 84 (803 / 8) (loan True (5 / 8)) []) [] 85 2024) ! 1
     \<in> set (fst (calculateCompoundInterest (\<lambda>_. holding 0 0) (plan 84 (803 / 8) (loan True (5 / 8)) []) [] 85 2024))
   \<and> \<bar>netWorth (fst (calculateCompoundInterest (\<lambda>_. holding 0 0) (plan 84 (803 / 8) (loan True (5 / 8)) []) [] 85 2024) ! 1)
       - (totalBalance (fst (calculateCompoundInterest (\<lambda>_. holding 0 0) (plan 84 (803 / 8) (loan True (5 / 8)) []) [] 85 2024) ! 1)
          - totalLiabilities (fst (calculateCompoundInterest (\<lambda>_. holding 0 0) (plan 84 (803 / 8) (loan True (5 / 8)) []) [] 85 2024) ! 1))\<bar> \<le> 1
   \<and> netWorth (fst (calculateCompoundInterest (\<lambda>_. holding 0 0) (plan 84 (803 / 8) (loan True (5 / 8)) []) [] 85 2024) ! 0)
       = totalBalance (fst (calculateCompoundInterest (\<lambda>_. holding 0 0) (plan 84 (803 / 8) (loan True (5 / 8)) []) [] 85 2024) ! 0)
          - totalLiabilities (fst (calculateCompoundInterest (\<lambda>_. holding 0 0) (plan 84 (803 / 8) (loan True (5 / 8)) []) [] 85 2024) ! 0)"
  using net_worth_within_one_unit [of "\<lambda>_. holding 0 0" "plan 84 (803 / 8) (loan True (5 / 8)) []" "[]" 85 2024]
  by (simp add: projection_with_loan)

theorem net_worth_identity_counterexample:
  "netWorth (last (fst (calculateCompoundInterest (\<lambda>_. holding 0 0)
       (plan 84 (803 / 8) (loan True (5 / 8)) []) [] 85 2024))) = 100
   \<and> totalBalance (last (fst (calculateCompoundInterest (\<lambda>_. holding 0 0)
       (plan 84 (803 / 8) (loan True (5 / 8)) []) [] 85 2024))) = 100
   \<and> totalLiabilities (last (fst (calculateCompoundInterest (\<lambda>_. holding 0 0)
       (plan 84 (803 / 8) (loan True (5 / 8)) []) [] 85 2024))) = 1
   \<and> netWorth (last (fst (calculateCompoundInterest (\<lambda>_. holding 0 0)
       (plan 84 (803 / 8) (loan True (5 / 8)) []) [] 85 2024)))
     \<noteq> totalBalance (last (fst (calculateCompoundInterest (\<lambda>_. holding 0 0)
         (plan 84 (803 / 8) (loan True (5 / 8)) []) [] 85 2024)))
       - totalLiabilities (last (fst (calculateCompoundInterest (\<lambda>_. holding 0 0)
         (plan 84 (803 / 8) (loan True (5 / 8)) []) [] 85 2024)))"
  by (simp add: projection_with_loan)

text \<open>
  Claim C9, as amended. With \<open>N = lifeExpectancy - currentAge\<close>: the projection is
  empty when \<open>N \<le> 0\<close>; otherwise it has \<open>\<lfloor>N\<rfloor> + 1\<close> records, whose ages are
  \<open>currentAge\<close>, \<open>currentAge + 1\<close>, ..., \<open>currentAge + \<lfloor>N\<rfloor>\<close> in this order. When
  \<open>N\<close> is a positive whole number these are \<open>N + 1\<close> records and the last age is
  \<open>lifeExpectancy\<close>.
\<close>

theorem projection_ages:
  "map age (fst (calculateCompoundInterest h p evs lifeExpectancy thisYear)) =
     (if lifeExpectancy - currentAge p \<le> 0 then []
      else map (\<lambda>k. currentAge p + real k) [0 ..< nat \<lfloor>lifeExpectancy - currentAge p\<rfloor> + 1])
   \<and> length (fst (calculateCompoundInterest h p evs lifeExpectancy thisYear)) =
     (if lifeExpectancy - currentAge p \<le> 0 then 0
      else nat \<lfloor>lifeExpectancy - currentAge p\<rfloor> + 1)
   \<and> (0 < lifeExpectancy - currentAge p
        \<and> lifeExpectancy - currentAge p = of_int \<lfloor>lifeExpectancy - currentAge p\<rfloor> \<longrightarrow>
      real (length (fst (calculateCompoundInterest h p evs lifeExpectancy thisYear)))
        = lifeExpectancy - currentAge p + 1
      \<and> age (last (fst (calculateCompoundInterest h p evs lifeExpectancy thisYear))) = lifeExpectancy)"
proof -
  let ?res = "fst (calculateCompoundInterest h p evs lifeExpectancy thisYear)"
  define d where "d = lifeExpectancy - currentAge p"
  have ages: "map age ?res =
     (if d \<le> 0 then [] else map (\<lambda>k. currentAge p + real k) [0 ..< nat \<lfloor>d\<rfloor> + 1])"
    unfolding d_def by (rule ages_projection)
  have "length (map age ?res) = (if d \<le> 0 then 0 else nat \<lfloor>d\<rfloor> + 1)"
    unfolding ages by simp
  then have len: "length ?res = (if d \<le> 0 then 0 else nat \<lfloor>d\<rfloor> + 1)"
    by simp
  have whole: "real (length ?res) = d + 1 \<and> age (last ?res) = lifeExpectancy"
    if pos: "0 < d" and int: "d = of_int \<lfloor>d\<rfloor>"
  proof -
    from pos have nn: "0 \<le> \<lfloor>d\<rfloor>" by simp
    have l: "length ?res = nat \<lfloor>d\<rfloor> + 1" using len pos by simp
    then have rl: "real (length ?res) = d + 1"
      using nn int by simp
    have ne: "?res \<noteq> []" using l by auto
    have "age (last ?res) = last (map age ?res)"
      using ne by (simp add: last_map)
    also have "\<dots> = currentAge p + real (nat \<lfloor>d\<rfloor>)"
      unfolding ages using pos by (simp add: last_map del: upt_Suc) 
    also have "\<dots> = currentAge p + d"
      using nn int by simp
    finally have "age (last ?res) = lifeExpectancy" by (simp add: d_def)
    with rl show ?thesis by simp
  qed
  from ages len whole show ?thesis unfolding d_def by blast
qed

theorem projection_ages_witness:
  "0 < 85 - currentAge (plan 84 (803 / 8) (loan True (5 / 8)) [])
   \<and> 85 - currentAge (plan 84 (803 / 8) (loan True (5 / 8)) [])
       = of_int \<lfloor>85 - currentAge (plan 84 (803 / 8) (loan True (5 / 8)) [])\<rfloor>
   \<and> real (length (fst (calculateCompoundInterest (\<lambda>_. holding 0 0)
         (plan 84 (803 / 8) (loan True (5 / 8)) []) [] 85 2024))) = 2
   \<and> map age (fst (calculateCompoundInterest (\<lambda>_. holding 0 0)
         (plan 84 (803 / 8) (loan True (5 / 8)) []) [] 85 2024)) = [84, 85]
   \<and> age (last (fst (calculateCompoundInterest (\<lambda>_. holding 0 0)
         (plan 84 (803 / 8) (loan True (5 / 8)) []) [] 85 2024))) = 85"
  using projection_ages [of "\<lambda>_. holding 0 0" "plan 84 (803 / 8) (loan True (5 / 8)) []" "[]" 85 2024]
  by (simp add: plan_sel)

theorem record_count_counterexample:
  "0 < 85 - currentAge (plan (169 / 2) 1000 (loan False 0) [])
   \<and> map age (fst (calculateCompoundInterest (\<lambda>_. holding 0 0)
         (plan (169 / 2) 1000 (loan False 0) []) [] 85 2024)) = [169 / 2]
   \<and> real (length (fst (calculateCompoundInterest (\<lambda>_. holding 0 0)
         (plan (169 / 2) 1000 (loan False 0) []) [] 85 2024)))
       \<noteq> 85 - currentAge (plan (169 / 2) 1000 (loan False 0) []) + 1"
  by (simp add: projection_half_year plan_sel)

text \<open>
  Claim C2. A simulated year starts from the events active at its age, whatever their
  order in the list: the balance is first multiplied by the factor of every active
  crash and then reduced by the magnitude of every active expense; both rates of the
  year are the base rates times the factor of every active return reduction; the
  monthly and the annual contribution are zero when a stop of contributions is active
  (or the age has reached the effective retirement age). The rest of the year runs
  from these values. The next year starts again from the base rates of the same
  environment.
\<close>

theorem events_applied_in_fixed_order:
  "yearStep env yr st =
     (let p = env_params env;
          stopped = (eventsOf {CONTRIBUTION_STOP} env yr \<noteq> []);
          retired = (currentAge p + real yr \<ge> effectiveRetirementAge env);
          reduction = prod_list (map keep (eventsOf {RETURN_REDUCTION} env yr));
          balance = currentBalance st * prod_list (map keep (eventsOf {MARKET_CRASH} env yr))
                    - sum_list (map ev_value (eventsOf {ONE_TIME_EXPENSE, RECURRING_EXPENSE} env yr))
      in restOfYear env yr
           (annualPriceAppreciation env * reduction)
           (annualDividendYield env * reduction)
           (if stopped \<or> retired then 0 else monthlyContribution p)
           (if stopped \<or> retired then 0 else annualExtraContribution p)
           (st\<lparr>currentBalance := balance\<rparr>))
   \<and> (real yr \<le> n \<longrightarrow>
        yearLoop env n yr st =
          snd (yearStep env yr st) # yearLoop env n (Suc yr) (fst (yearStep env yr st)))"
  using yearStep_closed [of env yr st] yearLoop_step [of yr n env st]
  by (simp add: Let_def)

theorem events_applied_in_fixed_order_witness:
  "yearStep stormEnv 1 stormState =
     restOfYear stormEnv 1 6 2 0 0 (stormState\<lparr>currentBalance := 400\<rparr>)
   \<and> real 1 \<le> (2::real)
   \<and> yearLoop stormEnv 2 1 stormState =
        snd (yearStep stormEnv 1 stormState)
        # yearLoop stormEnv 2 (Suc 1) (fst (yearStep stormEnv 1 stormState))"
proof -
  have sel: "env_params stormEnv = (plan 49 1000 (loan False 0) [])\<lparr>monthlyContribution := 500,
                                                     annualExtraContribution := 2000\<rparr>"
    "env_events stormEnv = [event 50 1 ONE_TIME_EXPENSE 100,
                    event 50 1 MARKET_CRASH 50,
                    event 50 1 RETURN_REDUCTION 50,
                    event 50 1 CONTRIBUTION_STOP 0,
                    event 51 1 MARKET_CRASH 10]"
    "effectiveRetirementAge stormEnv = 65" "annualPriceAppreciation stormEnv = 12"
    "annualDividendYield stormEnv = 4"
    by (simp_all add: stormEnv_def)
  have ev: "eventsOf {CONTRIBUTION_STOP} stormEnv (Suc 0) = [event 50 1 CONTRIBUTION_STOP 0]"
    "eventsOf {RETURN_REDUCTION} stormEnv (Suc 0) = [event 50 1 RETURN_REDUCTION 50]"
    "eventsOf {MARKET_CRASH} stormEnv (Suc 0) = [event 50 1 MARKET_CRASH 50]"
    "eventsOf {ONE_TIME_EXPENSE, RECURRING_EXPENSE} stormEnv (Suc 0) = [event 50 1 ONE_TIME_EXPENSE 100]"
    by (simp_all add: eventsOf_def sel plan_sel isActive_def event_def)
  have bal: "currentBalance stormState = 1000"
    by (simp add: stormState_def)
  from events_applied_in_fixed_order [of stormEnv 1 stormState 2]
  show ?thesis
    by (simp add: Let_def ev keep_def event_def bal sel)
qed

lemma find_none_iff: "find P xs = None \<longleftrightarrow> \<not> (\<exists>x \<in> set xs. P x)"
  by (induction xs) auto

lemma find_first: "(\<forall>x \<in> set pre. \<not> P x) \<Longrightarrow> P e \<Longrightarrow> find P (pre @ e # post) = Some e"
  by (induction pre) auto

lemma restOfYear_env:
  assumes "mortgage (env_params e1) = mortgage (env_params e2)"
    and "mortgageMonthlyPayment e1 = mortgageMonthlyPayment e2"
    and "inflationRate (env_params e1) = inflationRate (env_params e2)"
    and "currentAge (env_params e1) = currentAge (env_params e2)"
    and "currentYear e1 = currentYear e2"
  shows "restOfYear e1 yr a y mc ac st = restOfYear e2 yr a y mc ac st"
proof -
  have m: "monthStep e1 ra rd c = monthStep e2 ra rd c" for ra rd c
    unfolding monthStep_def Let_def assms by (rule refl)
  have e: "emitResult e1 yr y s = emitResult e2 yr y s" for s
    unfolding emitResult_def Let_def assms by (rule refl)
  show ?thesis
    by (simp add: restOfYear_def m e)
qed

text \<open>
  Claim C5. Without an early-retirement event the effective retirement age is
  \<open>retirementAge\<close>; otherwise it is \<open>retirementAge\<close> less the magnitude of the first
  such event of the list, whatever its start age and duration. It is fixed in the
  environment of the yearly loop, and a year whose age has reached it runs as it
  would with a monthly and an annual contribution of zero.
\<close>

theorem early_retirement_resolved_once:
  "(\<not> (\<exists>e \<in> set evs. ev_type e = RETIREMENT_EARLY) \<longrightarrow>
      resolveRetirementAge p evs = retirementAge p)
   \<and> (\<forall>pre e post.
        evs = pre @ e # post \<and> ev_type e = RETIREMENT_EARLY
        \<and> (\<forall>x \<in> set pre. ev_type x \<noteq> RETIREMENT_EARLY) \<longrightarrow>
        resolveRetirementAge p evs = retirementAge p - ev_value e)
   \<and> effectiveRetirementAge (initialEnv p evs stats thisYear) = resolveRetirementAge p evs
   \<and> (currentAge p + real yr \<ge> resolveRetirementAge p evs \<longrightarrow>
        yearStep (initialEnv p evs stats thisYear) yr st =
        yearStep (initialEnv (p\<lparr>monthlyContribution := 0, annualExtraContribution := 0\<rparr>)
                    evs stats thisYear) yr st)"
proof -
  let ?q = "p\<lparr>monthlyContribution := 0, annualExtraContribution := 0\<rparr>"
  have a: "resolveRetirementAge p evs = retirementAge p"
    if "\<not> (\<exists>e \<in> set evs. ev_type e = RETIREMENT_EARLY)"
  proof -
    from that have "find (\<lambda>e. ev_type e = RETIREMENT_EARLY) evs = None"
      by (simp add: find_none_iff)
    then show ?thesis by (simp add: resolveRetirementAge_def)
  qed
  have b: "resolveRetirementAge p evs = retirementAge p - ev_value e"
    if "evs = pre @ e # post" "ev_type e = RETIREMENT_EARLY"
       "\<forall>x \<in> set pre. ev_type x \<noteq> RETIREMENT_EARLY" for pre e post
  proof -
    from that have "find (\<lambda>e. ev_type e = RETIREMENT_EARLY) evs = Some e"
      by (simp add: find_first)
    then show ?thesis by (simp add: resolveRetirementAge_def)
  qed
  have c: "effectiveRetirementAge (initialEnv p evs stats thisYear) = resolveRetirementAge p evs"
    by (simp add: initialEnv_sel)
  have d: "yearStep (initialEnv p evs stats thisYear) yr st =
           yearStep (initialEnv ?q evs stats thisYear) yr st"
    if r: "currentAge p + real yr \<ge> resolveRetirementAge p evs"
  proof -
    have same: "resolveRetirementAge ?q evs = resolveRetirementAge p evs"
      by (simp add: resolveRetirementAge_def split: option.split)
    have evs: "eventsOf k (initialEnv ?q evs stats thisYear) yr
               = eventsOf k (initialEnv p evs stats thisYear) yr" for k
      by (simp add: eventsOf_def initialEnv_sel)
    have rest: "restOfYear (initialEnv p evs stats thisYear) yr x y 0 0 s =
                restOfYear (initialEnv ?q evs stats thisYear) yr x y 0 0 s" for x y s
      by (rule restOfYear_env) (simp_all add: initialEnv_sel)
    show ?thesis
      using r by (simp add: yearStep_closed Let_def initialEnv_sel same evs rest)
  qed
  from a b c d show ?thesis by blast
qed

theorem early_retirement_resolved_once_witness:
  "resolveRetirementAge (plan 59 1000 (loan False 0) []) [] = 65
   \<and> [event 40 2 CONTRIBUTION_STOP 0, event 99 1 RETIREMENT_EARLY 5, event 60 1 RETIREMENT_EARLY 7]
       = [event 40 2 CONTRIBUTION_STOP 0] @ event 99 1 RETIREMENT_EARLY 5 # [event 60 1 RETIREMENT_EARLY 7]
   \<and> map ev_type [event 40 2 CONTRIBUTION_STOP 0, event 99 1 RETIREMENT_EARLY 5]
       = [CONTRIBUTION_STOP, RETIREMENT_EARLY]
   \<and> resolveRetirementAge (plan 59 1000 (loan False 0) [])
        [event 40 2 CONTRIBUTION_STOP 0, event 99 1 RETIREMENT_EARLY 5, event 60 1 RETIREMENT_EARLY 7]
       = 60
   \<and> currentAge (plan 59 1000 (loan False 0) []) + real 1
       \<ge> resolveRetirementAge (plan 59 1000 (loan False 0) [])
            [event 40 2 CONTRIBUTION_STOP 0, event 99 1 RETIREMENT_EARLY 5, event 60 1 RETIREMENT_EARLY 7]
   \<and> yearStep (initialEnv ((plan 59 1000 (loan False 0) [])\<lparr>monthlyContribution := 500\<rparr>)
          [event 40 2 CONTRIBUTION_STOP 0, event 99 1 RETIREMENT_EARLY 5, event 60 1 RETIREMENT_EARLY 7]
          \<lparr>weightedReturn = 0, weightedYield = 0, weightedVolatility = 0, totalValue = 0\<rparr> 2024)
        1 (initialState (plan 59 1000 (loan False 0) []))
     = yearStep (initialEnv (plan 59 1000 (loan False 0) [])
          [event 40 2 CONTRIBUTION_STOP 0, event 99 1 RETIREMENT_EARLY 5, event 60 1 RETIREMENT_EARLY 7]
          \<lparr>weightedReturn = 0, weightedYield = 0, weightedVolatility = 0, totalValue = 0\<rparr> 2024)
        1 (initialState (plan 59 1000 (loan False 0) []))"
proof -
  let ?evs = "[event 40 2 CONTRIBUTION_STOP 0, event 99 1 RETIREMENT_EARLY 5,
               event 60 1 RETIREMENT_EARLY 7]"
  let ?p = "plan 59 1000 (loan False 0) []"
  let ?z = "\<lparr>weightedReturn = 0, weightedYield = 0, weightedVolatility = 0, totalValue = 0\<rparr>"
  have q: "(?p\<lparr>monthlyContribution := 500\<rparr>)\<lparr>monthlyContribution := 0, annualExtraContribution := 0\<rparr> = ?p"
    by (simp add: plan_def)
  have r: "resolveRetirementAge (?p\<lparr>monthlyContribution := 500\<rparr>) ?evs = 60"
    by (simp add: resolveRetirementAge_def event_def plan_def)
  have c: "currentAge (?p\<lparr>monthlyContribution := 500\<rparr>) = 59"
    by (simp add: plan_def)
  from early_retirement_resolved_once [of "[]" ?p ?z 2024 1 "initialState ?p"]
  have one: "resolveRetirementAge ?p [] = 65"
    by (simp add: plan_sel)
  have "resolveRetirementAge ?p ?evs = retirementAge ?p - ev_value (event 99 1 RETIREMENT_EARLY 5)"
    by (rule early_retirement_resolved_once [of ?evs ?p ?z 2024 1 "initialState ?p",
              THEN conjunct2, THEN conjunct1, rule_format,
              of "[event 40 2 CONTRIBUTION_STOP 0]" "event 99 1 RETIREMENT_EARLY 5"
                 "[event 60 1 RETIREMENT_EARLY 7]"])
       (simp add: event_def)
  then have two: "resolveRetirementAge ?p ?evs = 60"
    by (simp add: plan_sel event_def)
  from early_retirement_resolved_once
         [of ?evs "?p\<lparr>monthlyContribution := 500\<rparr>" ?z 2024 1 "initialState ?p"]
  have three: "yearStep (initialEnv (?p\<lparr>monthlyContribution := 500\<rparr>) ?evs ?z 2024) 1 (initialState ?p)
             = yearStep (initialEnv ?p ?evs ?z 2024) 1 (initialState ?p)"
    unfolding q r c by simp
  from one two three show ?thesis
    by (simp add: plan_sel event_def)
qed

section \<open>Repeated calls\<close>

lemma aggregated_allocation_only:
  "aggregated rs h x = (h x)\<lparr>allocation := allocation (aggregated rs h x)\<rparr>"
  by (simp add: aggregated_def writeBack_def)

lemma aggregated_figures [simp]:
  "hkdValueOf (aggregated rs h x) = hkdValueOf (h x)"
  "expectedReturn (aggregated rs h x) = expectedReturn (h x)"
  "dividendYield (aggregated rs h x) = dividendYield (h x)"
  "volatility (aggregated rs h x) = volatility (h x)"
  by (simp_all add: aggregated_def writeBack_def)

lemma baseTotal_aggregated [simp]: "baseTotal (aggregated rs h) rs' = baseTotal h rs'"
  by (simp add: baseTotal_def)

lemma weighted_aggregated [simp]:
  "weighted expectedReturn (aggregated rs h) rs' = weighted expectedReturn h rs'"
  "weighted dividendYield (aggregated rs h) rs' = weighted dividendYield h rs'"
  "weighted volatility (aggregated rs h) rs' = weighted volatility h rs'"
  by (simp_all add: weighted_def)

lemma stats_aggregated [simp]:
  "fst (calculatePortfolioStats (aggregated rs h) rs') = fst (calculatePortfolioStats h rs')"
  by (simp add: calculatePortfolioStats_closed)

lemma aggregated_idem [simp]: "aggregated rs (aggregated rs h) = aggregated rs h"
proof (rule ext)
  fix x
  show "aggregated rs (aggregated rs h) x = aggregated rs h x"
  proof (cases "baseTotal h rs = 0")
    case True
    then show ?thesis
      using baseTotal_aggregated [of rs h rs] by (simp add: aggregated_def)
  next
    case False
    have "aggregated rs (aggregated rs h) x
          = writeBack (baseTotal h rs) rs (aggregated rs h) x"
      using False baseTotal_aggregated [of rs h rs] by (simp add: aggregated_def [of rs "aggregated rs h"])
    also have "\<dots> = writeBack (baseTotal h rs) rs h x"
      using False by (simp add: writeBack_def share_def aggregated_def [of rs h])
    also have "\<dots> = aggregated rs h x"
      using False by (simp add: aggregated_def)
    finally show ?thesis .
  qed
qed

lemma snd_calculateCompoundInterest [simp]:
  "snd (calculateCompoundInterest h p evs l y) = aggregated (assets p) h"
  by (simp add: calculateCompoundInterest_closed)

lemma fst_calculateCompoundInterest_aggregated [simp]:
  "fst (calculateCompoundInterest (aggregated rs h) p evs l y)
     = fst (calculateCompoundInterest h p evs l y)"
  by (simp add: calculateCompoundInterest_closed)

lemma snd_runScenario [simp]: "snd (runScenario h p b y sc) = aggregated (assets p) h"
  by (simp add: runScenario_def case_prod_beta Let_def)

lemma fst_runScenario_aggregated [simp]:
  "fst (runScenario (aggregated rs h) p b y sc) = fst (runScenario h p b y sc)"
  by (simp add: runScenario_def case_prod_beta Let_def)

lemma mapScenarios_closed:
  "mapScenarios (aggregated (assets p) h) p b y scs =
     (map (\<lambda>sc. fst (runScenario h p b y sc)) scs, aggregated (assets p) h)"
proof (induction scs)
  case Nil
  show ?case by simp
next
  case (Cons sc scs)
  have "runScenario (aggregated (assets p) h) p b y sc
        = (fst (runScenario h p b y sc), aggregated (assets p) h)"
    by (simp add: prod_eq_iff)
  then show ?case by (simp add: Cons.IH)
qed

lemma runStressTests_closed:
  "runStressTests h p y =
     (map (\<lambda>sc. fst (runScenario h p
                          (lastTotalBalance (fst (calculateCompoundInterest h p [] 85 y))) y sc))
          (scenarios p),
      aggregated (assets p) h)"
  by (simp add: runStressTests_def case_prod_beta mapScenarios_closed)

lemma snd_runMonteCarloSimulation:
  "snd (runMonteCarloSimulation h p n randn y) = aggregated (assets p) h"
  by (simp add: runMonteCarloSimulation_def case_prod_beta Let_def snd_calculatePortfolioStats)

text \<open>
  Claim C6. A second call with the same arguments, made on the store the first call
  has left, returns the same results and leaves the same store: this holds for the
  portfolio aggregator, the projection simulator and the stress test runner. The gap
  analyzer, which reads statistics only, gives the same result from the statistics
  of the holdings before and after their allocations were overwritten. The calendar
  year is an argument of the model, and the functions read no other state.
\<close>

theorem repeated_calls_give_identical_results:
  "calculatePortfolioStats (snd (calculatePortfolioStats h rs)) rs = calculatePortfolioStats h rs
   \<and> calculateCompoundInterest (snd (calculateCompoundInterest h p evs l y)) p evs l y
       = calculateCompoundInterest h p evs l y
   \<and> runStressTests (snd (runStressTests h p y)) p y = runStressTests h p y
   \<and> calculateGapAnalysis
        (fst (calculatePortfolioStats (snd (calculatePortfolioStats h (assets p))) (assets p)))
        (fst (calculatePortfolioStats (snd (calculatePortfolioStats h (assets p))) (simulatedAssets p)))
        n
       = calculateGapAnalysis
           (fst (calculatePortfolioStats h (assets p)))
           (fst (calculatePortfolioStats h (simulatedAssets p))) n"
proof -
  have a: "calculatePortfolioStats (snd (calculatePortfolioStats h rs)) rs = calculatePortfolioStats h rs"
    by (simp add: prod_eq_iff snd_calculatePortfolioStats)
  have b: "calculateCompoundInterest (snd (calculateCompoundInterest h p evs l y)) p evs l y
       = calculateCompoundInterest h p evs l y"
    by (simp add: prod_eq_iff)
  have c: "runStressTests (snd (runStressTests h p y)) p y = runStressTests h p y"
    by (simp add: runStressTests_closed)
  have d: "calculateGapAnalysis
        (fst (calculatePortfolioStats (snd (calculatePortfolioStats h (assets p))) (assets p)))
        (fst (calculatePortfolioStats (snd (calculatePortfolioStats h (assets p))) (simulatedAssets p)))
        n
       = calculateGapAnalysis
           (fst (calculatePortfolioStats h (assets p)))
           (fst (calculatePortfolioStats h (simulatedAssets p))) n"
    by (simp add: snd_calculatePortfolioStats)
  from a b c d show ?thesis by blast
qed

text \<open>
  Claim C10, as amended. The projection simulator, the Monte Carlo engine (also when
  it throws) and the stress test runner leave the store that one aggregation of
  \<open>params.assets\<close> leaves: when the total base value of these assets is not zero,
  the allocation of each of them is overwritten by its rounded share; when it is zero,
  nothing is written. No other field of an asset and no asset outside \<open>params.assets\<close>
  changes. The parameter object and its mortgage are only read: the source assigns to
  no field of theirs, and the model passes them by value.
\<close>

theorem calls_write_allocations_only:
  "snd (calculateCompoundInterest h p evs l y) = aggregated (assets p) h
   \<and> snd (runMonteCarloSimulation h p n randn y) = aggregated (assets p) h
   \<and> snd (runStressTests h p y) = aggregated (assets p) h
   \<and> (\<forall>x. aggregated (assets p) h x =
          (if x \<in> set (assets p) \<and> baseTotal h (assets p) \<noteq> 0
           then (h x)\<lparr>allocation := toFixed1 (hkdValueOf (h x) / baseTotal h (assets p) * 100)\<rparr>
           else h x))"
  by (simp add: runStressTests_closed snd_runMonteCarloSimulation aggregated_def writeBack_def share_def)

theorem allocation_overwrite_counterexample:
  "snd (calculateCompoundInterest (\<lambda>_. holding 0 50) (plan 84 1000 (loan False 0) [0]) [] 85 2024)
     = (\<lambda>_. holding 0 50)
   \<and> allocation (snd (calculateCompoundInterest (\<lambda>_. holding 0 50)
                       (plan 84 1000 (loan False 0) [0]) [] 85 2024) 0) = 50
   \<and> baseTotal (\<lambda>_. holding 0 50) (assets (plan 84 1000 (loan False 0) [0])) = 0"
  by (simp add: aggregated_def baseTotal_def holding_value plan_def)
    (simp add: holding_def)

section \<open>Stress test outcomes\<close>

lemma runScenario_fields:
  "scenario (fst (runScenario h p b y sc)) = sc"
  "baselineBalance (fst (runScenario h p b y sc)) = b"
  "finalBalance (fst (runScenario h p b y sc)) =
     lastTotalBalance (fst (calculateCompoundInterest h p (events sc) (scenarioLifeExpectancy sc) y))"
  "isBankrupt (fst (runScenario h p b y sc)) =
     (find (\<lambda>r. totalBalance r < 0)
        (fst (calculateCompoundInterest h p (events sc) (scenarioLifeExpectancy sc) y)) \<noteq> None)"
  "bankruptAge (fst (runScenario h p b y sc)) =
     map_option age (find (\<lambda>r. totalBalance r < 0)
        (fst (calculateCompoundInterest h p (events sc) (scenarioLifeExpectancy sc) y)))"
  by (simp_all add: runScenario_def case_prod_beta Let_def)

lemma status_runScenario:
  "status (fst (runScenario h p b y sc)) =
     classify (scenario_id sc = ''longevity'')
       (isBankrupt (fst (runScenario h p b y sc)))
       (finalBalance (fst (runScenario h p b y sc))) b"
proof -
  define f where "f = lastTotalBalance
      (fst (calculateCompoundInterest h p (events sc) (scenarioLifeExpectancy sc) y))"
  define k where "k = (find (\<lambda>r. totalBalance r < 0)
      (fst (calculateCompoundInterest h p (events sc) (scenarioLifeExpectancy sc) y)) \<noteq> None)"
  define ratio where "ratio = (if b > 0 then f / b else 0)"
  have r: "(if b \<le> 0 then 0 else f / b) = ratio"
    by (simp add: ratio_def not_le)
  have "status (fst (runScenario h p b y sc)) =
      (if scenario_id sc = ''longevity'' \<and> f > 0 then SAFE
       else if k \<or> f \<le> 0 then DANGER
       else if ratio < 5 / 10 then DANGER
       else if ratio < 8 / 10 then WARNING else SAFE)"
    unfolding runScenario_def f_def k_def ratio_def by (simp add: case_prod_beta Let_def)
  also have "\<dots> = classify (scenario_id sc = ''longevity'') k f b"
    unfolding classify_def Let_def r by auto
  finally show ?thesis
    unfolding f_def k_def by (simp add: runScenario_fields)
qed

text \<open>
  Claim C3. Every outcome of the stress test runner carries the status that the
  classification rule gives for its own fields: Safe for the longevity scenario with a
  positive final balance, whatever the ratio (and whether or not the run went
  bankrupt); otherwise Danger when the run is bankrupt, the final balance is not
  positive or the ratio is below 0.5; otherwise Warning when the ratio is below 0.8;
  otherwise Safe. The ratio is final balance over baseline, taken as 0 for a baseline
  that is not positive. The outcomes are those of the nine scenarios in order; the
  baseline is the last total balance of the projection without events to age 85, the
  final balance that of the scenario's own projection.
\<close>

theorem outcomes_classified:
  "map status (fst (runStressTests h p y)) =
     map (\<lambda>r. classify (scenario_id (scenario r) = ''longevity'')
                 (isBankrupt r) (finalBalance r) (baselineBalance r))
       (fst (runStressTests h p y))
   \<and> map scenario (fst (runStressTests h p y)) = scenarios p
   \<and> map baselineBalance (fst (runStressTests h p y)) =
       map (\<lambda>sc. lastTotalBalance (fst (calculateCompoundInterest h p [] 85 y))) (scenarios p)
   \<and> map finalBalance (fst (runStressTests h p y)) =
       map (\<lambda>sc. lastTotalBalance
                   (fst (calculateCompoundInterest h p (events sc) (scenarioLifeExpectancy sc) y)))
         (scenarios p)"
  by (simp add: runStressTests_closed o_def runScenario_fields status_runScenario)

text \<open>
  An example of the precedence: a plan that starts in debt at 99 and saves 1000 a month
  has a negative balance in its first record and a positive one at 100. The longevity
  outcome is marked bankrupt and is classified Safe.
\<close>

lemma longevity_scenario:
  "scenarios p ! 7 = \<lparr>scenario_id = ''longevity'', events = [],
       customRetirementAge = None, customLifeExpectancy = Some 100\<rparr>"
  by (simp add: scenarios_def)

lemma longevity_safe_although_bankrupt:
  "map (\<lambda>r. (isBankrupt r, bankruptAge r, finalBalance r, baselineBalance r, status r))
     [fst (runStressTests h ((plan 99 (- 1000) (loan False 0) [])
                               \<lparr>retirementAge := 120, monthlyContribution := 1000\<rparr>) 2024) ! 7]
   = [(True, Some 99, 11000, 0, SAFE)]"
proof -
  let ?p = "(plan 99 (- 1000) (loan False 0) [])\<lparr>retirementAge := 120, monthlyContribution := 1000\<rparr>"
  have sel: "currentAge ?p = 99" "retirementAge ?p = 120" "initialPrincipal ?p = - 1000"
    "monthlyContribution ?p = 1000" "annualExtraContribution ?p = 0" "inflationRate ?p = 0"
    "mortgage ?p = loan False 0" "useManualReturn ?p = True" "manualReturnRate ?p = 0"
    "manualDividendYield ?p = 0" "assets ?p = []"
    by (simp_all add: plan_def)
  have base: "fst (calculateCompoundInterest h ?p [] 85 2024) = []"
    by (simp add: calculateCompoundInterest_closed sel)
  have run: "fst (calculateCompoundInterest h ?p [] 100 2024) =
      [\<lparr>age = 99, year = 2024, totalPrincipal = - 1000, totalAppreciation = 0,
        totalDividends = 0, totalBalance = - 1000, totalLiabilities = 0,
        netWorth = - 1000, yearlyPassiveIncome = 0,
        totalPrincipalReal = - 1000, totalAppreciationReal = 0,
        totalDividendsReal = 0, totalBalanceReal = - 1000,
        totalLiabilitiesReal = 0, netWorthReal = - 1000,
        yearlyPassiveIncomeReal = 0\<rparr>,
       \<lparr>age = 100, year = 2025, totalPrincipal = 11000, totalAppreciation = 0,
        totalDividends = 0, totalBalance = 11000, totalLiabilities = 0,
        netWorth = 11000, yearlyPassiveIncome = 0,
        totalPrincipalReal = 11000, totalAppreciationReal = 0,
        totalDividendsReal = 0, totalBalanceReal = 11000,
        totalLiabilitiesReal = 0, netWorthReal = 11000,
        yearlyPassiveIncomeReal = 0\<rparr>]"
    by (simp add: run_simps sel cong: let_weak_cong prod.case_cong_weak)
  have le: "scenarioLifeExpectancy (scenarios ?p ! 7) = 100" "events (scenarios ?p ! 7) = []"
    "scenario_id (scenarios ?p ! 7) = ''longevity''"
    by (simp_all add: longevity_scenario scenarioLifeExpectancy_def)
  have o: "fst (runStressTests h ?p 2024) ! 7
        = fst (runScenario h ?p 0 2024 (scenarios ?p ! 7))"
    by (simp add: runStressTests_closed base lastTotalBalance_def scenarios_def)
  show ?thesis
    unfolding o
    by (simp add: runScenario_fields status_runScenario le run lastTotalBalance_def classify_def)
qed


text \<open>
  Claim C4. The outcome of each scenario is marked bankrupt exactly when some record
  of the scenario's projection has a negative total balance, anywhere in the
  sequence; its bankruptcy age is then the age of the first such record.
\<close>

theorem bankruptcy_detected_at_first_negative_balance:
  "i < length (scenarios p) \<Longrightarrow>
   scenario (fst (runStressTests h p y) ! i) = scenarios p ! i
   \<and> isBankrupt (fst (runStressTests h p y) ! i) =
       (\<exists>r \<in> set (fst (calculateCompoundInterest h p (events (scenarios p ! i))
                          (scenarioLifeExpectancy (scenarios p ! i)) y)).
          totalBalance r < 0)
   \<and> (isBankrupt (fst (runStressTests h p y) ! i) \<longrightarrow>
        (\<exists>k < length (fst (calculateCompoundInterest h p (events (scenarios p ! i))
                             (scenarioLifeExpectancy (scenarios p ! i)) y)).
           totalBalance (fst (calculateCompoundInterest h p (events (scenarios p ! i))
                             (scenarioLifeExpectancy (scenarios p ! i)) y) ! k) < 0
           \<and> (\<forall>j < k. \<not> totalBalance (fst (calculateCompoundInterest h p (events (scenarios p ! i))
                             (scenarioLifeExpectancy (scenarios p ! i)) y) ! j) < 0)
           \<and> bankruptAge (fst (runStressTests h p y) ! i) =
               Some (age (fst (calculateCompoundInterest h p (events (scenarios p ! i))
                             (scenarioLifeExpectancy (scenarios p ! i)) y) ! k))))"
proof -
  assume i: "i < length (scenarios p)"
  let ?sc = "scenarios p ! i"
  let ?b = "lastTotalBalance (fst (calculateCompoundInterest h p [] 85 y))"
  let ?res = "fst (calculateCompoundInterest h p (events ?sc) (scenarioLifeExpectancy ?sc) y)"
  let ?o = "fst (runStressTests h p y) ! i"
  have o: "?o = fst (runScenario h p ?b y ?sc)"
    using i by (simp add: runStressTests_closed)
  have a: "scenario ?o = ?sc"
    by (simp add: o runScenario_fields)
  have b: "isBankrupt ?o = (\<exists>r \<in> set ?res. totalBalance r < 0)"
    by (auto simp: o runScenario_fields find_None_iff)
  have c: "\<exists>k < length ?res. totalBalance (?res ! k) < 0
             \<and> (\<forall>j < k. \<not> totalBalance (?res ! j) < 0)
             \<and> bankruptAge ?o = Some (age (?res ! k))"
    if "isBankrupt ?o"
  proof -
    from that obtain r where r: "find (\<lambda>r. totalBalance r < 0) ?res = Some r"
      by (auto simp: o runScenario_fields)
    then obtain k where "k < length ?res" "totalBalance (?res ! k) < 0" "r = ?res ! k"
      "\<forall>j < k. \<not> totalBalance (?res ! j) < 0"
      unfolding find_Some_iff by blast
    moreover have "bankruptAge ?o = Some (age r)"
      by (simp add: o runScenario_fields r)
    ultimately show ?thesis by blast
  qed
  from a b c show ?thesis by blast
qed

lemma care_scenario:
  "scenarios p ! 3 = \<lparr>scenario_id = ''care'', events = [event 75 10 RECURRING_EXPENSE 480000],
       customRetirementAge = None, customLifeExpectancy = None\<rparr>"
  "length (scenarios p) = 9"
  by (simp_all add: scenarios_def)

lemma projection_care:
  "fst (calculateCompoundInterest h (plan 83 100000 (loan False 0) [])
         [event 75 10 RECURRING_EXPENSE 480000] 85 2024) =
   [\<lparr>age = 83, year = 2024, totalPrincipal = 100000, totalAppreciation = 0,
     totalDividends = 0, totalBalance = 100000, totalLiabilities = 0,
     netWorth = 100000, yearlyPassiveIncome = 0,
     totalPrincipalReal = 100000, totalAppreciationReal = 0,
     totalDividendsReal = 0, totalBalanceReal = 100000,
     totalLiabilitiesReal = 0, netWorthReal = 100000,
     yearlyPassiveIncomeReal = 0\<rparr>,
    \<lparr>age = 84, year = 2025, totalPrincipal = 100000, totalAppreciation = 0,
     totalDividends = 0, totalBalance = - 380000, totalLiabilities = 0,
     netWorth = - 380000, yearlyPassiveIncome = 0,
     totalPrincipalReal = 100000, totalAppreciationReal = 0,
     totalDividendsReal = 0, totalBalanceReal = - 380000,
     totalLiabilitiesReal = 0, netWorthReal = - 380000,
     yearlyPassiveIncomeReal = 0\<rparr>,
    \<lparr>age = 85, year = 2026, totalPrincipal = 100000, totalAppreciation = 0,
     totalDividends = 0, totalBalance = - 380000, totalLiabilities = 0,
     netWorth = - 380000, yearlyPassiveIncome = 0,
     totalPrincipalReal = 100000, totalAppreciationReal = 0,
     totalDividendsReal = 0, totalBalanceReal = - 380000,
     totalLiabilitiesReal = 0, netWorthReal = - 380000,
     yearlyPassiveIncomeReal = 0\<rparr>]"
  by (simp add: run_simps cong: let_weak_cong prod.case_cong_weak)

theorem bankruptcy_detected_at_first_negative_balance_witness:
  "3 < length (scenarios (plan 83 100000 (loan False 0) []))
   \<and> scenario_id (scenario (fst (runStressTests (\<lambda>_. holding 0 0)
         (plan 83 100000 (loan False 0) []) 2024) ! 3)) = ''care''
   \<and> isBankrupt (fst (runStressTests (\<lambda>_. holding 0 0) (plan 83 100000 (loan False 0) []) 2024) ! 3)
   \<and> bankruptAge (fst (runStressTests (\<lambda>_. holding 0 0) (plan 83 100000 (loan False 0) []) 2024) ! 3)
       = Some 84"
proof -
  let ?p = "plan 83 100000 (loan False 0) []"
  let ?o = "fst (runStressTests (\<lambda>_. holding 0 0) ?p 2024) ! 3"
  have i: "3 < length (scenarios ?p)"
    by (simp add: care_scenario)
  note t = bankruptcy_detected_at_first_negative_balance [OF i, of "\<lambda>_. holding 0 0" 2024,
             unfolded care_scenario]
  have le: "scenarioLifeExpectancy \<lparr>scenario_id = ''care'',
              events = [event 75 10 RECURRING_EXPENSE 480000],
              customRetirementAge = None, customLifeExpectancy = None\<rparr> = 85"
    by (simp add: scenarioLifeExpectancy_def)
  define res where "res = fst (calculateCompoundInterest (\<lambda>_. holding 0 0) ?p
                    [event 75 10 RECURRING_EXPENSE 480000] 85 2024)"
  have tb: "map totalBalance res = [100000, - 380000, - 380000]"
    and ages: "map age res = [83, 84, 85]"
    unfolding res_def projection_care by simp_all
  have len: "length res = 3"
    using arg_cong [OF tb, of length] by simp
  have nth_tb: "totalBalance (res ! j) = [100000, - 380000, - 380000] ! j" if "j < 3" for j
    using that len nth_map [of j res totalBalance] by (simp add: tb)
  have nth_age: "age (res ! j) = [83, 84, 85] ! j" if "j < 3" for j
    using that len nth_map [of j res age] by (simp add: ages)
  have ev: "events \<lparr>scenario_id = ''care'',
              events = [event 75 10 RECURRING_EXPENSE 480000],
              customRetirementAge = None, customLifeExpectancy = None\<rparr>
            = [event 75 10 RECURRING_EXPENSE 480000]"
    by simp
  note t' = t [unfolded le ev, folded res_def]
  from t' have a: "scenario_id (scenario ?o) = ''care''"
    by simp
  have "res ! 1 \<in> set res" "totalBalance (res ! 1) < 0"
    using len nth_tb [of 1] by simp_all
  with t' have b: "isBankrupt ?o"
    by blast
  with t' obtain k where k: "k < length res" "totalBalance (res ! k) < 0"
      "\<forall>j < k. \<not> totalBalance (res ! j) < 0" "bankruptAge ?o = Some (age (res ! k))"
    by blast
  from k(1) len have "k = 0 \<or> k = 1 \<or> k = 2" by linarith
  then have "k = 1"
  proof (elim disjE)
    assume "k = 0"
    with k(2) nth_tb [of 0] show ?thesis by simp
  next
    assume "k = 1"
    then show ?thesis .
  next
    assume "k = 2"
    with k(3) have "\<not> totalBalance (res ! 1) < 0" by simp
    with nth_tb [of 1] show ?thesis by simp
  qed
  with k(4) nth_age [of 1] have c: "bankruptAge ?o = Some 84"
    by simp
  from i a b c show ?thesis by blast
qed

end
